theory Spec2Isabelle
  imports Complex_Main "HOL-Library.Sublist"
begin

section \<open>The clock\<close>

text \<open>
  Every handler of the service worker reads the wall clock: \<^verbatim>\<open>Date.now()\<close> (epoch
  milliseconds), \<^verbatim>\<open>new Date().toISOString().slice(0, 10)\<close> (the UTC calendar day, the
  key of the per-day stores) and \<^verbatim>\<open>getHours()\<close>/\<^verbatim>\<open>getMinutes()\<close> (local time). One
  reading is taken per handler invocation and passed in explicitly.
\<close>

record clock =
  now :: int
  today :: string
  hours :: nat
  minutes :: nat

section \<open>Settings store and \<^verbatim>\<open>utils/config.js\<close>\<close>

datatype setting_value = VNum int | VBool bool | VStr string | VList "string list" | VNull

type_synonym settings_store = "string \<rightharpoonup> setting_value"

definition DEFAULT_CONFIG :: "(string \<times> setting_value) list" where
  "DEFAULT_CONFIG =
    [(''retentionDays'', VNum 30),
     (''autoExport'', VBool True),
     (''exportFrequency'', VStr ''weekly''),
     (''excludedDomains'', VList [''accounts.google.com'', ''login.microsoftonline.com'',
        ''auth0.com'', ''okta.com'', ''login.okta.com'']),
     (''excludedPaths'', VList [''/login'', ''/signin'', ''/auth'', ''/oauth'', ''/saml'',
        ''/sso'', ''/callback'', ''/2fa'', ''/mfa'']),
     (''dailyFocusGoalMinutes'', VNum 240),
     (''distractionAlertMinutes'', VNum 60),
     (''enableDistractionAlerts'', VBool True),
     (''tabWarningThreshold'', VNum 20),
     (''enableTabWarnings'', VBool True),
     (''autoSnapshotMinutes'', VNum 60),
     (''clipboardContextChars'', VNum 500),
     (''detectCodeSnippets'', VBool True),
     (''aiProvider'', VStr ''anthropic''),
     (''aiModel'', VStr ''claude-3-haiku-20240307''),
     (''aiEnabled'', VBool True),
     (''monthlyAiBudgetCents'', VNum 1000),
     (''batchClassificationIntervalMinutes'', VNum 5),
     (''vipEmailSenders'', VList []),
     (''weatherLocation'', VNull),
     (''enableMorningBriefing'', VBool True),
     (''morningBriefingHour'', VNum 9),
     (''enableStartNudges'', VBool True),
     (''readyCheckHour'', VNum 10),
     (''enableEndOfDaySummary'', VBool True),
     (''endOfDayHour'', VNum 18),
     (''enableMeetingAwareness'', VBool True),
     (''meetingWarningMinutes'', VNum 5),
     (''theme'', VStr ''dark''),
     (''popupWidth'', VNum 400),
     (''popupHeight'', VNum 500)]"

definition KNOWN_PRODUCTIVE :: "string list" where
  "KNOWN_PRODUCTIVE =
    [''github.com'', ''gitlab.com'', ''bitbucket.org'', ''stackoverflow.com'',
     ''developer.mozilla.org'', ''docs.google.com'', ''notion.so'', ''linear.app'',
     ''jira.atlassian.com'', ''trello.com'', ''asana.com'', ''figma.com'', ''vercel.com'',
     ''netlify.com'', ''aws.amazon.com'', ''console.cloud.google.com'', ''portal.azure.com'',
     ''claude.ai'', ''chat.openai.com'', ''localhost'']"

definition KNOWN_DISTRACTIONS :: "string list" where
  "KNOWN_DISTRACTIONS =
    [''twitter.com'', ''x.com'', ''facebook.com'', ''instagram.com'', ''reddit.com'',
     ''youtube.com'', ''tiktok.com'', ''netflix.com'', ''twitch.tv'', ''discord.com'',
     ''hulu.com'', ''disneyplus.com'', ''primevideo.com'', ''9gag.com'', ''buzzfeed.com'']"

text \<open>
  \<^verbatim>\<open>getSetting(key)\<close>: the stored record's value if there is one, else the default if the
  key is a key of \<^verbatim>\<open>DEFAULT_CONFIG\<close>, else \<^verbatim>\<open>undefined\<close> (here \<open>None\<close>).
\<close>

definition getSetting :: "settings_store \<Rightarrow> string \<Rightarrow> setting_value option" where
  "getSetting settings key =
     (case settings key of
        Some v \<Rightarrow> Some v
      | None \<Rightarrow> map_of DEFAULT_CONFIG key)"

text \<open>
  \<^verbatim>\<open>initializeSettings()\<close>: every key of \<^verbatim>\<open>DEFAULT_CONFIG\<close> without a stored record gets
  its default stored; existing records are kept.
\<close>

definition initializeSettings :: "settings_store \<Rightarrow> settings_store" where
  "initializeSettings st =
     (\<lambda>key. case st key of Some v \<Rightarrow> Some v | None \<Rightarrow> map_of DEFAULT_CONFIG key)"

text \<open>
  \<^verbatim>\<open>(await config.get(key)) || d\<close> for a numeric setting: the default \<open>d\<close> replaces
  every falsy value (\<^verbatim>\<open>undefined\<close>, \<^verbatim>\<open>null\<close>, \<^verbatim>\<open>false\<close>, \<^verbatim>\<open>0\<close>, the empty string). The
  numeric settings hold numbers; a truthy value of another type is not a number the
  handlers could compute with, and is read as absent here.
\<close>

definition num_or :: "setting_value option \<Rightarrow> int \<Rightarrow> int" where
  "num_or v d = (case v of Some (VNum n) \<Rightarrow> (if n = 0 then d else n) | _ \<Rightarrow> d)"

text \<open>
  \<^verbatim>\<open>enabled === false\<close>: strict equality, so only a stored boolean
  \<^verbatim>\<open>false\<close> disables.
\<close>

definition is_false :: "setting_value option \<Rightarrow> bool" where
  "is_false v = (v = Some (VBool False))"

text \<open>
  JavaScript truthiness of a setting: the test of \<^verbatim>\<open>enabled &&
  !!apiKey\<close>.
\<close>

definition truthy :: "setting_value option \<Rightarrow> bool" where
  "truthy v =
     (case v of
        None \<Rightarrow> False
      | Some (VNum n) \<Rightarrow> n \<noteq> 0
      | Some (VBool b) \<Rightarrow> b
      | Some (VStr s) \<Rightarrow> s \<noteq> []
      | Some (VList _) \<Rightarrow> True
      | Some VNull \<Rightarrow> False)"

section \<open>Stored records (\<^verbatim>\<open>storage/schemas.js\<close>)\<close>

text \<open>
  A cached domain classification, as the AI handlers write it. Field names that several
  record shapes of the source share carry a suffix here: \<open>_c\<close> in the cache record,
  \<open>_e\<close> in a \<^verbatim>\<open>topDomains\<close> entry, \<open>_s\<close> in the daily snapshot; the session
  record keeps the plain names.
\<close>

record domain_classification =
  domain_c :: string
  classification_c :: string
  confidence :: rat
  reason :: string
  classifiedAt :: int
  source :: string

text \<open>
  One entry of \<^verbatim>\<open>topDomains\<close>: \<^verbatim>\<open>{ domain, ...data
  }\<close>.
\<close>

record domain_entry =
  domain_e :: string
  duration_e :: int
  classification_e :: string

text \<open>The four running sums of the aggregation; the daily snapshot carries them too.\<close>

record time_totals =
  totalTime :: int
  productiveTime :: int
  distractionTime :: int
  neutralTime :: int

text \<open>
  The accumulator of the aggregation loop: the sums and the insertion-ordered
  \<^verbatim>\<open>domainMap\<close>.
\<close>

record agg = time_totals +
  domainMap :: "(string \<times> int \<times> string) list"

record daily_stats = time_totals +
  date_s :: string
  topDomains :: "domain_entry list"
  goalProgress :: int
  sessionCount :: nat
  updatedAt :: int

text \<open>
  \<^verbatim>\<open>activeTabState\<close>, the open session held in memory, and the session record persisted
  from it: \<^verbatim>\<open>{ ...activeTabState, endTime: now, duration }\<close>.
\<close>

record active_tab =
  url :: string
  domain :: string
  title :: string
  startTime :: int
  date :: string
  classification :: string
  expiresAt :: int

record session = active_tab +
  endTime :: int
  duration :: int

type_synonym classification_cache = "string \<rightharpoonup> domain_classification"

text \<open>
  The object stores of the database the modelled handlers use. \<^verbatim>\<open>browsing_sessions\<close> has
  an auto-increment key, so a \<^verbatim>\<open>put\<close> of a record without id appends; the other stores
  are keyed by domain, by day and by setting name, and a \<^verbatim>\<open>put\<close> overwrites.
\<close>

record db =
  browsing_sessions :: "session list"
  domain_classifications :: classification_cache
  daily_stats_store :: "string \<rightharpoonup> daily_stats"
  settings :: settings_store

section \<open>Daily aggregation (\<^verbatim>\<open>aggregateDailyStats\<close>)\<close>

text \<open>
  The classification one session is folded under: its own stamp
  (\<^verbatim>\<open>session.classification || "unclassified"\<close>), and for an unclassified session the
  cached record's classification if the cache has the domain.
\<close>

definition session_classification :: "classification_cache \<Rightarrow> session \<Rightarrow> string" where
  "session_classification cache s =
     (let c = (if classification s = [] then ''unclassified''
               else classification s)
      in if c = ''unclassified''
         then (case cache (domain s) of
                 Some cached \<Rightarrow> classification_c cached
               | None \<Rightarrow> c)
         else c)"

text \<open>
  \<^verbatim>\<open>domainMap.set(key, value)\<close>: a JavaScript
  \<^verbatim>\<open>Map\<close> keeps the place of an existing key.
\<close>

fun domainMap_set ::
  "(string \<times> int \<times> string) list \<Rightarrow> string \<Rightarrow> int \<times> string \<Rightarrow> (string \<times> int \<times> string) list"
where
  "domainMap_set [] k v = [(k, v)]"
| "domainMap_set ((k', v') # m) k v =
     (if k' = k then (k, v) # m else (k', v') # domainMap_set m k v)"

text \<open>
  The \<^verbatim>\<open>switch\<close> on the classification: one of the three sums grows.
\<close>

definition add_to_bucket :: "string \<Rightarrow> int \<Rightarrow> agg \<Rightarrow> agg" where
  "add_to_bucket c d a =
     (if c = ''productive'' then a\<lparr>productiveTime := productiveTime a + d\<rparr>
      else if c = ''distraction'' then a\<lparr>distractionTime := distractionTime a + d\<rparr>
      else a\<lparr>neutralTime := neutralTime a + d\<rparr>)"

text \<open>The body of the \<^verbatim>\<open>for (const session of sessions)\<close> loop.\<close>

definition fold_session :: "classification_cache \<Rightarrow> agg \<Rightarrow> session \<Rightarrow> agg" where
  "fold_session cache a s =
     (let d = (if duration s = 0 then 0 else duration s);
          a1 = a\<lparr>totalTime := totalTime a + d\<rparr>;
          c = session_classification cache s;
          a2 = add_to_bucket c d a1;
          existing = (case map_of (domainMap a2) (domain s) of
                        Some e \<Rightarrow> e
                      | None \<Rightarrow> (0, c))
      in a2\<lparr>domainMap :=
              domainMap_set (domainMap a2) (domain s) (fst existing + d, snd existing)\<rparr>)"

definition agg_init :: agg where
  "agg_init = \<lparr>totalTime = 0, productiveTime = 0, distractionTime = 0, neutralTime = 0,
               domainMap = []\<rparr>"

text \<open>
  \<^verbatim>\<open>db.getAllFromIndex("browsing_sessions", "by_date", today)\<close>.
\<close>

definition sessions_of_day :: "'a db_scheme \<Rightarrow> string \<Rightarrow> session list" where
  "sessions_of_day d day = filter (\<lambda>s. date s = day) (browsing_sessions d)"

text \<open>
  \<^verbatim>\<open>Array.from(domainMap.entries()).map(...).sort((a, b) => b.duration - a.duration).slice(0, 20)\<close>;
  the sort is stable, as \<^verbatim>\<open>Array.prototype.sort\<close> is.
\<close>

definition top_domains :: "(string \<times> int \<times> string) list \<Rightarrow> domain_entry list" where
  "top_domains m =
     take 20 (sort_key (\<lambda>e. - duration_e e)
       (map (\<lambda>(k, dur, c). \<lparr>domain_e = k, duration_e = dur, classification_e = c\<rparr>) m))"

text \<open>
  \<^verbatim>\<open>Math.min(Math.round((productiveTime / (goalMinutes * 60000)) * 100), 100)\<close>.
  \<^verbatim>\<open>Math.round\<close> rounds a half up, as \<open>round\<close> does. The quotient is taken exactly here;
  the source computes it in IEEE doubles, which can fall on the other side of a half.
\<close>

definition goal_progress :: "int \<Rightarrow> int \<Rightarrow> int" where
  "goal_progress productive goalMinutes =
     min (round ((of_int productive / of_int (goalMinutes * 60000)) * (100::rat))) 100"

definition aggregateDailyStats :: "'c clock_scheme \<Rightarrow> 'a db_scheme \<Rightarrow> 'a db_scheme" where
  "aggregateDailyStats clk d =
     (let sessions = sessions_of_day d (today clk);
          a = foldl (fold_session (domain_classifications d)) agg_init sessions;
          goalMinutes = num_or (getSetting (settings d) ''focusGoalMinutes'') 240;
          stats = \<lparr>totalTime = totalTime a,
                   productiveTime = productiveTime a,
                   distractionTime = distractionTime a,
                   neutralTime = neutralTime a,
                   date_s = today clk,
                   topDomains = top_domains (domainMap a),
                   goalProgress = goal_progress (productiveTime a) goalMinutes,
                   sessionCount = length sessions,
                   updatedAt = now clk\<rparr>
      in d\<lparr>daily_stats_store := (daily_stats_store d)(today clk \<mapsto> stats)\<rparr>)"

section \<open>The service worker's state\<close>

text \<open>
  \<^verbatim>\<open>dailyState\<close>, the in-memory ledger of the once-per-day rules;
  \<^verbatim>\<open>date: null\<close> is \<open>None\<close>.
\<close>

record daily_state =
  date_d :: "string option"
  morningBriefingSent :: bool
  readyNudgeSent :: bool
  firstProductiveCelebrated :: bool
  lastDistractionAlert :: int
  oneHourCelebrated :: bool
  goalCelebrated :: bool

text \<open>
  A calendar event as \<^verbatim>\<open>getTodaysEvents\<close> returns it, with the fields the scheduler
  reads; \<open>start_ev\<close> is \<^verbatim>\<open>new Date(event.start).getTime()\<close>.
\<close>

record calendar_event =
  id_ev :: string
  title_ev :: string
  start_ev :: int

text \<open>
  A record of the \<^verbatim>\<open>external_cache\<close> store;
  \<^verbatim>\<open>expiresAt\<close> is absent in some writers.
\<close>

record 'p cache_entry =
  data :: 'p
  fetchedAt :: int
  expiresAt_x :: "int option"

text \<open>
  A call of \<^verbatim>\<open>chrome.notifications.create(id, options)\<close>. The message text is composed
  from fetched data and formatted times and is left out; \<open>created\<close> is the clock reading
  of the handler that made the call.
\<close>

record notification =
  id_n :: string
  title_n :: string
  priority :: nat
  created :: int

datatype error = NotAuthenticated | ApiKeyMissing | RequestFailed | MalformedResponse

text \<open>
  One element of the classifier's parsed \<^verbatim>\<open>classifications\<close> array.
\<close>

record ai_item =
  domain_i :: string
  classification_i :: string
  confidence_i :: rat
  reason_i :: string

text \<open>
  What a handler finds outside the process when it runs: the clock, the outcome the
  calendar request has if it is made, the outcome the classifier request has for a given
  batch (HTTP call and \<^verbatim>\<open>JSON.parse\<close> together), and the platform's URL parser
  (\<^verbatim>\<open>new URL(url).hostname\<close>, \<open>None\<close> where it throws).
\<close>

record env = clock +
  calendar_fetch :: "error + calendar_event list"
  ai_request :: "string list \<Rightarrow> error + ai_item list"
  url_hostname :: "string \<Rightarrow> string option"

text \<open>
  The database together with the module-level variables of the service worker, the
  calendar's record in \<^verbatim>\<open>external_cache\<close>, and two logs of what left the process: the
  notifications created and the batches sent to the classifier.
\<close>

record world = db +
  activeTabState :: "active_tab option"
  dailyState :: daily_state
  notifiedMeetings :: "string list"
  calendar_cache :: "calendar_event list cache_entry option"
  notifications :: "notification list"
  ai_calls :: "string list list"

definition notify :: "'a clock_scheme \<Rightarrow> string \<Rightarrow> string \<Rightarrow> nat \<Rightarrow> world \<Rightarrow> world" where
  "notify clk i t p w =
     w\<lparr>notifications := notifications w @ [\<lparr>id_n = i, title_n = t, priority = p, created = now clk\<rparr>]\<rparr>"

definition fresh_daily_state :: "string \<Rightarrow> daily_state" where
  "fresh_daily_state day =
     \<lparr>date_d = Some day, morningBriefingSent = False, readyNudgeSent = False,
      firstProductiveCelebrated = False, lastDistractionAlert = 0,
      oneHourCelebrated = False, goalCelebrated = False\<rparr>"

text \<open>The state of a freshly loaded service worker.\<close>

definition initial_daily_state :: daily_state where
  "initial_daily_state =
     \<lparr>date_d = None, morningBriefingSent = False, readyNudgeSent = False,
      firstProductiveCelebrated = False, lastDistractionAlert = 0,
      oneHourCelebrated = False, goalCelebrated = False\<rparr>"

definition resetDailyStateIfNeeded :: "'a clock_scheme \<Rightarrow> world \<Rightarrow> world" where
  "resetDailyStateIfNeeded clk w =
     (if date_d (dailyState w) \<noteq> Some (today clk)
      then w\<lparr>dailyState := fresh_daily_state (today clk)\<rparr>
      else w)"

section \<open>Stale-tolerant remote fetches\<close>

text \<open>
  What a cached fetch hands back: the payload as it is, or the payload spread into a new
  object with \<^verbatim>\<open>stale: true\<close> added.
\<close>

datatype 'p reply = Plain 'p | Stale 'p

record 'p fetched =
  result :: "error + 'p reply"
  cache_after :: "'p cache_entry option"
  fetcher_called :: bool

text \<open>
  The body shared by the \<^verbatim>\<open>GET_WEATHER\<close> and \<^verbatim>\<open>GET_GITHUB_REPOS\<close> handlers, which differ
  in the cache key, the time to live and the fetcher. \<open>cached\<close> is the record under the
  handler's key, \<open>fetcher\<close> the outcome of the remote call if it is made.
\<close>

definition cached_handler ::
  "int \<Rightarrow> 'a clock_scheme \<Rightarrow> (error + 'p) \<Rightarrow> 'p cache_entry option \<Rightarrow> 'p fetched" where
  "cached_handler ttl clk fetcher cached =
     (case cached of
        Some c \<Rightarrow>
          if now clk - fetchedAt c < ttl
          then \<lparr>result = Inr (Plain (data c)), cache_after = cached, fetcher_called = False\<rparr>
          else (case fetcher of
                  Inr d \<Rightarrow>
                    \<lparr>result = Inr (Plain d),
                     cache_after = Some \<lparr>data = d, fetchedAt = now clk,
                                         expiresAt_x = Some (now clk + 24 * 60 * 60 * 1000)\<rparr>,
                     fetcher_called = True\<rparr>
                | Inl e \<Rightarrow>
                    \<lparr>result = Inr (Stale (data c)), cache_after = cached, fetcher_called = True\<rparr>)
      | None \<Rightarrow>
          (case fetcher of
             Inr d \<Rightarrow>
               \<lparr>result = Inr (Plain d),
                cache_after = Some \<lparr>data = d, fetchedAt = now clk,
                                    expiresAt_x = Some (now clk + 24 * 60 * 60 * 1000)\<rparr>,
                fetcher_called = True\<rparr>
           | Inl e \<Rightarrow> \<lparr>result = Inl e, cache_after = None, fetcher_called = True\<rparr>))"

definition GET_WEATHER :: "'a clock_scheme \<Rightarrow> (error + 'p) \<Rightarrow> 'p cache_entry option \<Rightarrow> 'p fetched" where
  "GET_WEATHER = cached_handler (15 * 60 * 1000)"

definition GET_GITHUB_REPOS :: "'a clock_scheme \<Rightarrow> (error + 'p) \<Rightarrow> 'p cache_entry option \<Rightarrow> 'p fetched" where
  "GET_GITHUB_REPOS = cached_handler (5 * 60 * 1000)"

text \<open>
  The body shared by \<^verbatim>\<open>calendar.getTodaysEvents\<close> and \<^verbatim>\<open>gmail.getUnreadEmails\<close>: the
  cached payload is returned as it is also after a failed request, and the record
  written has no \<^verbatim>\<open>expiresAt\<close>.
\<close>

definition cached_api ::
  "int \<Rightarrow> 'a clock_scheme \<Rightarrow> (error + 'p) \<Rightarrow> 'p cache_entry option \<Rightarrow> 'p fetched" where
  "cached_api ttl clk fetcher cached =
     (case cached of
        Some c \<Rightarrow>
          if now clk - fetchedAt c < ttl
          then \<lparr>result = Inr (Plain (data c)), cache_after = cached, fetcher_called = False\<rparr>
          else (case fetcher of
                  Inr d \<Rightarrow>
                    \<lparr>result = Inr (Plain d),
                     cache_after = Some \<lparr>data = d, fetchedAt = now clk, expiresAt_x = None\<rparr>,
                     fetcher_called = True\<rparr>
                | Inl e \<Rightarrow>
                    \<lparr>result = Inr (Plain (data c)), cache_after = cached, fetcher_called = True\<rparr>)
      | None \<Rightarrow>
          (case fetcher of
             Inr d \<Rightarrow>
               \<lparr>result = Inr (Plain d),
                cache_after = Some \<lparr>data = d, fetchedAt = now clk, expiresAt_x = None\<rparr>,
                fetcher_called = True\<rparr>
           | Inl e \<Rightarrow> \<lparr>result = Inl e, cache_after = None, fetcher_called = True\<rparr>))"

definition CACHE_TTL :: int where
  "CACHE_TTL = 5 * 60 * 1000"

definition getTodaysEvents ::
  "'a clock_scheme \<Rightarrow> (error + calendar_event list) \<Rightarrow> calendar_event list cache_entry option
     \<Rightarrow> calendar_event list fetched" where
  "getTodaysEvents = cached_api CACHE_TTL"

definition getUnreadEmails :: "'a clock_scheme \<Rightarrow> (error + 'p) \<Rightarrow> 'p cache_entry option \<Rightarrow> 'p fetched" where
  "getUnreadEmails = cached_api (2 * 60 * 1000)"

text \<open>
  \<^verbatim>\<open>await safeCall(() => calendar.getTodaysEvents())\<close> inside a handler: the events, or
  \<open>None\<close> for \<^verbatim>\<open>null\<close>, and the world with the calendar's cache record as the call left it.
\<close>

definition safe_todays_events :: "'a env_scheme \<Rightarrow> world \<Rightarrow> calendar_event list option \<times> world" where
  "safe_todays_events e w =
     (let r = getTodaysEvents e (calendar_fetch e) (calendar_cache w);
          w' = w\<lparr>calendar_cache := cache_after r\<rparr>
      in case result r of
           Inr (Plain evs) \<Rightarrow> (Some evs, w')
         | Inr (Stale evs) \<Rightarrow> (Some evs, w')
         | Inl _ \<Rightarrow> (None, w'))"

section \<open>Session tracker\<close>

definition to_lower :: "char \<Rightarrow> char" where
  "to_lower c =
     (let n = (of_char c :: nat) in if 65 \<le> n \<and> n \<le> 90 then char_of (n + 32) else c)"

definition authPatterns :: "string list" where
  "authPatterns =
     [''accounts.google.com'', ''login.microsoftonline.com'', ''auth0.com'',
      ''/login'', ''/signin'', ''/auth'', ''/oauth'', ''/sso'']"

text \<open>
  \<^verbatim>\<open>shouldExclude(url)\<close>; a missing URL is the empty string here, falsy like
  \<^verbatim>\<open>undefined\<close>. \<^verbatim>\<open>includes\<close> is \<open>sublist\<close>, \<^verbatim>\<open>startsWith\<close> is \<open>prefix\<close>.
\<close>

definition shouldExclude :: "string \<Rightarrow> bool" where
  "shouldExclude u =
     (if u = [] then True
      else if prefix ''chrome://'' u \<or> prefix ''chrome-extension://'' u then True
      else if prefix ''about:'' u then True
      else (let urlLower = map to_lower u
            in list_ex (\<lambda>pattern. sublist pattern urlLower) authPatterns))"

definition extractDomain :: "(string \<Rightarrow> string option) \<Rightarrow> string \<Rightarrow> string" where
  "extractDomain parse u = (case parse u of Some h \<Rightarrow> h | None \<Rightarrow> ''unknown'')"

text \<open>
  \<^verbatim>\<open>checkIfProductive(domain)\<close>: the built-in allow-list, then the
  classification cache.
\<close>

definition checkIfProductive :: "classification_cache \<Rightarrow> string \<Rightarrow> bool" where
  "checkIfProductive cache dmn =
     (if dmn \<in> set KNOWN_PRODUCTIVE then True
      else (case cache dmn of
              Some cached \<Rightarrow> classification_c cached = ''productive''
            | None \<Rightarrow> False))"

text \<open>
  \<^verbatim>\<open>celebrateFirstProductiveAction(domain)\<close> tests its flag and then suspends at
  \<^verbatim>\<open>await checkIfProductive(domain)\<close>. \<open>celebrate_resume\<close> is the part that runs when the
  handler resumes; it sets the flag without testing it again.
\<close>

definition celebrate_resume :: "'a clock_scheme \<Rightarrow> string \<Rightarrow> world \<Rightarrow> world" where
  "celebrate_resume clk dmn w =
     (if \<not> checkIfProductive (domain_classifications w) dmn then w
      else
        (let w1 = w\<lparr>dailyState := (dailyState w)\<lparr>firstProductiveCelebrated := True\<rparr>\<rparr>;
             w2 = w1\<lparr>settings := (settings w1)(''work_start_'' @ today clk \<mapsto> VNum (now clk))\<rparr>
         in notify clk ''first_productive'' ''AniMate: Great Start!'' 1 w2))"

text \<open>The handler run without another handler in between.\<close>

definition celebrateFirstProductiveAction :: "'a clock_scheme \<Rightarrow> string \<Rightarrow> world \<Rightarrow> world" where
  "celebrateFirstProductiveAction clk dmn w0 =
     (let w = resetDailyStateIfNeeded clk w0
      in if firstProductiveCelebrated (dailyState w) then w
         else celebrate_resume clk dmn w)"

text \<open>A browser tab, as far as \<^verbatim>\<open>handleTabChange\<close> reads it.\<close>

record tab =
  url_t :: string
  title_t :: string

text \<open>
  The session record \<^verbatim>\<open>{ ...activeTabState, endTime: now, duration
  }\<close>.
\<close>

definition close_session :: "active_tab \<Rightarrow> int \<Rightarrow> int \<Rightarrow> session" where
  "close_session a e d =
     \<lparr>url = url a, domain = domain a, title = title a, startTime = startTime a,
      date = date a, classification = classification a, expiresAt = expiresAt a,
      endTime = e, duration = d\<rparr>"

definition handleTabChange :: "'a env_scheme \<Rightarrow> tab \<Rightarrow> world \<Rightarrow> world" where
  "handleTabChange e t w0 =
     (let w = (case activeTabState w0 of
                 None \<Rightarrow> w0
               | Some a \<Rightarrow>
                   (let d = now e - startTime a
                    in if d > 1000
                       then w0\<lparr>browsing_sessions := browsing_sessions w0 @ [close_session a (now e) d]\<rparr>
                       else w0))
      in if shouldExclude (url_t t) then w\<lparr>activeTabState := None\<rparr>
         else
           (let dmn = extractDomain (url_hostname e) (url_t t);
                w1 = w\<lparr>activeTabState :=
                         Some \<lparr>url = url_t t, domain = dmn, title = title_t t, startTime = now e,
                               date = today e, classification = ''unclassified'',
                               expiresAt = now e + 30 * 24 * 60 * 60 * 1000\<rparr>\<rparr>
            in celebrateFirstProductiveAction e dmn w1))"

text \<open>
  The heartbeat's \<^verbatim>\<open>persistActiveSession\<close>: a partial record, and the
  start moved to now.
\<close>

definition persistActiveSession :: "'a clock_scheme \<Rightarrow> world \<Rightarrow> world" where
  "persistActiveSession clk w =
     (case activeTabState w of
        None \<Rightarrow> w
      | Some a \<Rightarrow>
          (let d = now clk - startTime a
           in if d > 5000
              then w\<lparr>browsing_sessions := browsing_sessions w @ [close_session a (now clk) d],
                     activeTabState := Some (a\<lparr>startTime := now clk\<rparr>)\<rparr>
              else w))"

text \<open>
  \<^verbatim>\<open>runCleanup\<close> on the stores modelled here: \<^verbatim>\<open>deleteExpired\<close> removes the records whose
  \<^verbatim>\<open>expiresAt\<close> is at most now. Only \<^verbatim>\<open>browsing_sessions\<close> of them has the expiry index
  and records that carry the field (the calendar's cache record has none).
\<close>

definition runCleanup :: "'a clock_scheme \<Rightarrow> world \<Rightarrow> world" where
  "runCleanup clk w =
     w\<lparr>browsing_sessions := filter (\<lambda>s. \<not> expiresAt s \<le> now clk) (browsing_sessions w)\<rparr>"

section \<open>Batch classification\<close>

definition isAIEnabled :: "settings_store \<Rightarrow> bool" where
  "isAIEnabled st = (truthy (getSetting st ''aiEnabled'') \<and> truthy (getSetting st ''anthropicApiKey''))"

text \<open>
  What \<^verbatim>\<open>classifyDomains\<close> returns: the bare empty array for no domains, else the object
  holding the parsed \<^verbatim>\<open>classifications\<close>.
\<close>

datatype classify_reply = Empty_array | Classified "ai_item list"

text \<open>
  \<^verbatim>\<open>classifyDomains(domains)\<close> of the API client: at most the first 20 domains go into the
  one request it makes. \<^verbatim>\<open>anthropicRequest\<close> throws before any request when no API key is
  set. The batch sent is appended to the log of calls.
\<close>

definition classifyDomains :: "'a env_scheme \<Rightarrow> string list \<Rightarrow> world \<Rightarrow> (error + classify_reply) \<times> world" where
  "classifyDomains e domains w =
     (if domains = [] then (Inr Empty_array, w)
      else
        (let batch = take 20 domains
         in if \<not> truthy (getSetting (settings w) ''anthropicApiKey'') then (Inl ApiKeyMissing, w)
            else
              (let w' = w\<lparr>ai_calls := ai_calls w @ [batch]\<rparr>
               in case ai_request e batch of
                    Inl err \<Rightarrow> (Inl err, w')
                  | Inr items \<Rightarrow> (Inr (Classified items), w'))))"

text \<open>
  \<^verbatim>\<open>uncached.add(domain)\<close> on a \<^verbatim>\<open>Set\<close>, which
  keeps insertion order.
\<close>

definition set_add :: "string list \<Rightarrow> string \<Rightarrow> string list" where
  "set_add xs x = (if x \<in> set xs then xs else xs @ [x])"

definition uncached_domains :: "classification_cache \<Rightarrow> session list \<Rightarrow> string list" where
  "uncached_domains cache sessions =
     foldl (\<lambda>uncached s.
              if classification s = ''unclassified'' \<and> cache (domain s) = None
              then set_add uncached (domain s) else uncached)
       [] sessions"

text \<open>
  The record both AI paths put into \<^verbatim>\<open>domain_classifications\<close> for a
  returned item.
\<close>

definition ai_record :: "int \<Rightarrow> ai_item \<Rightarrow> domain_classification" where
  "ai_record t item =
     \<lparr>domain_c = domain_i item, classification_c = classification_i item,
      confidence = confidence_i item, reason = reason_i item, classifiedAt = t,
      source = ''ai''\<rparr>"

definition put_classifications :: "int \<Rightarrow> ai_item list \<Rightarrow> classification_cache \<Rightarrow> classification_cache" where
  "put_classifications t items cache =
     foldl (\<lambda>c item. c(domain_i item \<mapsto> ai_record t item)) cache items"

definition batchClassifyDomains :: "'a env_scheme \<Rightarrow> world \<Rightarrow> world" where
  "batchClassifyDomains e w =
     (if \<not> isAIEnabled (settings w) then w
      else
        (let sessions = sessions_of_day w (today e);
             uncached = uncached_domains (domain_classifications w) sessions
         in if uncached = [] then w
            else
              (let domainsToClassify = take 20 uncached
               in case classifyDomains e domainsToClassify w of
                    (Inr (Classified items), w1) \<Rightarrow>
                      aggregateDailyStats e
                        (w1\<lparr>domain_classifications :=
                               put_classifications (now e) items (domain_classifications w1)\<rparr>)
                  | (Inr Empty_array, w1) \<Rightarrow> w1
                  | (Inl err, w1) \<Rightarrow> w1)))"

text \<open>
  One element of the \<^verbatim>\<open>CLASSIFY_DOMAIN\<close> handler's result: a cache record, or for a domain
  of a failed call the object
  \<^verbatim>\<open>{ domain, classification: "neutral", confidence: 0, source: "fallback" }\<close>.
\<close>

datatype classify_result = Record domain_classification | Fallback string

definition CLASSIFY_DOMAIN :: "'a env_scheme \<Rightarrow> string list \<Rightarrow> world \<Rightarrow> classify_result list \<times> world" where
  "CLASSIFY_DOMAIN e domains w =
     (if domains = [] then ([], w)
      else
        (let results = map (\<lambda>d. Record (the (domain_classifications w d)))
                         (filter (\<lambda>d. domain_classifications w d \<noteq> None) domains);
             uncached = filter (\<lambda>d. domain_classifications w d = None) domains
         in if uncached = [] \<or> \<not> isAIEnabled (settings w) then (results, w)
            else
              (case classifyDomains e uncached w of
                 (Inr (Classified items), w1) \<Rightarrow>
                   (results @ map (\<lambda>item. Record (ai_record (now e) item)) items,
                    w1\<lparr>domain_classifications :=
                          put_classifications (now e) items (domain_classifications w1)\<rparr>)
               | (Inr Empty_array, w1) \<Rightarrow> (results @ map Fallback uncached, w1)
               | (Inl err, w1) \<Rightarrow> (results @ map Fallback uncached, w1))))"

section \<open>Notification rules\<close>

definition checkMorningBriefing :: "'a env_scheme \<Rightarrow> world \<Rightarrow> world" where
  "checkMorningBriefing e w0 =
     (let w = resetDailyStateIfNeeded e w0
      in if morningBriefingSent (dailyState w) then w
         else if is_false (getSetting (settings w) ''enableMorningBriefing'') then w
         else
           (let briefingHour = num_or (getSetting (settings w) ''morningBriefingHour'') 9
            in if int (hours e) = briefingHour \<and> minutes e < 2
               then
                 (let w1 = w\<lparr>dailyState := (dailyState w)\<lparr>morningBriefingSent := True\<rparr>\<rparr>;
                      w2 = snd (safe_todays_events e w1)
                  in notify e ''morning_briefing'' ''AniMate: Good Morning!'' 2 w2)
               else w))"

definition checkReadyToStart :: "'a env_scheme \<Rightarrow> world \<Rightarrow> world" where
  "checkReadyToStart e w0 =
     (let w = resetDailyStateIfNeeded e w0
      in if readyNudgeSent (dailyState w) \<or> firstProductiveCelebrated (dailyState w) then w
         else if is_false (getSetting (settings w) ''enableStartNudges'') then w
         else
           (let nudgeHour = num_or (getSetting (settings w) ''readyCheckHour'') 10
            in if int (hours e) = nudgeHour \<and> minutes e < 2
               then
                 (if (case daily_stats_store w (today e) of
                        None \<Rightarrow> True
                      | Some stats \<Rightarrow> productiveTime stats < 60000)
                  then
                    (let w1 = w\<lparr>dailyState := (dailyState w)\<lparr>readyNudgeSent := True\<rparr>\<rparr>;
                         w2 = snd (safe_todays_events e w1)
                     in notify e ''ready_nudge'' ''AniMate: Hey!'' 1 w2)
                  else w)
               else w))"

text \<open>
  \<^verbatim>\<open>checkEndOfDay\<close> keeps its mark in the \<^verbatim>\<open>settings\<close> store, under \<^verbatim>\<open>eod_\<close> and the day;
  any record under that key counts as sent.
\<close>

definition checkEndOfDay :: "'a env_scheme \<Rightarrow> world \<Rightarrow> world" where
  "checkEndOfDay e w =
     (if is_false (getSetting (settings w) ''enableEndOfDaySummary'') then w
      else
        (let summaryHour = num_or (getSetting (settings w) ''endOfDayHour'') 18;
             summaryKey = ''eod_'' @ today e
         in if settings w summaryKey \<noteq> None then w
            else if int (hours e) = summaryHour \<and> minutes e < 2
            then
              (let w1 = w\<lparr>settings := (settings w)(summaryKey \<mapsto> VBool True)\<rparr>
               in case daily_stats_store w1 (today e) of
                    None \<Rightarrow> w1
                  | Some stats \<Rightarrow>
                      if productiveTime stats > 0
                      then notify e ''end_of_day'' ''AniMate: Day Summary'' 1 w1
                      else w1)
            else w))"

definition checkProgressMilestones :: "'a env_scheme \<Rightarrow> world \<Rightarrow> world" where
  "checkProgressMilestones e w0 =
     (let w = resetDailyStateIfNeeded e w0
      in case daily_stats_store w (today e) of
           None \<Rightarrow> w
         | Some stats \<Rightarrow>
             (let productiveMs = productiveTime stats;
                  goalMinutes = num_or (getSetting (settings w) ''dailyFocusGoalMinutes'') 240;
                  goalMs = goalMinutes * 60 * 1000;
                  w1 = (if \<not> oneHourCelebrated (dailyState w) \<and> productiveMs \<ge> 3600000
                        then notify e ''milestone_1hr'' ''AniMate: Nice Progress!'' 1
                               (w\<lparr>dailyState := (dailyState w)\<lparr>oneHourCelebrated := True\<rparr>\<rparr>)
                        else w)
              in if \<not> goalCelebrated (dailyState w1) \<and> productiveMs \<ge> goalMs
                 then notify e ''milestone_goal'' ''AniMate: Goal Reached!'' 2
                        (w1\<lparr>dailyState := (dailyState w1)\<lparr>goalCelebrated := True\<rparr>\<rparr>)
                 else w1))"

definition cooldown :: int where
  "cooldown = 30 * 60 * 1000"

definition checkDistractionAlert :: "'a env_scheme \<Rightarrow> world \<Rightarrow> world" where
  "checkDistractionAlert e w0 =
     (let w = resetDailyStateIfNeeded e w0
      in if is_false (getSetting (settings w) ''enableDistractionAlerts'') then w
         else if now e - lastDistractionAlert (dailyState w) < cooldown then w
         else
           (case daily_stats_store w (today e) of
              None \<Rightarrow> w
            | Some stats \<Rightarrow>
                (let distractionMs = distractionTime stats;
                     thresholdMinutes = num_or (getSetting (settings w) ''distractionAlertMinutes'') 60;
                     thresholdMs = thresholdMinutes * 60 * 1000
                 in if distractionMs \<ge> thresholdMs
                    then notify e ''distraction_alert'' ''AniMate: Gentle Nudge'' 1
                           (w\<lparr>dailyState := (dailyState w)\<lparr>lastDistractionAlert := now e\<rparr>\<rparr>)
                    else w)))"

text \<open>
  The notification id of a meeting warning: \<^verbatim>\<open>meeting_\<close> followed by
  the event's id.
\<close>

definition meeting_id :: "string \<Rightarrow> string" where
  "meeting_id i = ''meeting_'' @ i"

text \<open>
  The body of the loop over the events in \<^verbatim>\<open>checkMeetingAwareness\<close>.
\<close>

definition warn_meeting :: "'a env_scheme \<Rightarrow> int \<Rightarrow> int \<Rightarrow> world \<Rightarrow> calendar_event \<Rightarrow> world" where
  "warn_meeting e warningWindowMs bufferMs w ev =
     (if id_ev ev \<in> set (notifiedMeetings w) then w
      else
        (let timeUntilStart = start_ev ev - now e
         in if timeUntilStart > warningWindowMs - bufferMs
               \<and> timeUntilStart \<le> warningWindowMs + 2 * bufferMs
            then notify e (meeting_id (id_ev ev)) ''AniMate: Heads up!'' 2
                   (w\<lparr>notifiedMeetings := set_add (notifiedMeetings w) (id_ev ev)\<rparr>)
            else w))"

text \<open>
  The clean-up loop: an id leaves the set when the event found under it in the fetched
  list started more than an hour ago.
\<close>

definition prune_meetings :: "'a env_scheme \<Rightarrow> calendar_event list \<Rightarrow> string list \<Rightarrow> string list" where
  "prune_meetings e evs notified =
     filter (\<lambda>eventId.
               case find (\<lambda>ev. id_ev ev = eventId) evs of
                 None \<Rightarrow> True
               | Some ev \<Rightarrow> \<not> now e - start_ev ev > 60 * 60 * 1000)
       notified"

definition checkMeetingAwareness :: "'a env_scheme \<Rightarrow> world \<Rightarrow> world" where
  "checkMeetingAwareness e w =
     (if is_false (getSetting (settings w) ''enableMeetingAwareness'') then w
      else
        (case safe_todays_events e w of
           (None, w1) \<Rightarrow> w1
         | (Some evs, w1) \<Rightarrow>
             if evs = [] then w1
             else
               (let warningMinutes = num_or (getSetting (settings w1) ''meetingWarningMinutes'') 5;
                    warningWindowMs = warningMinutes * 60 * 1000;
                    bufferMs = 60 * 1000;
                    w2 = foldl (warn_meeting e warningWindowMs bufferMs) w1 evs
                in w2\<lparr>notifiedMeetings := prune_meetings e evs (notifiedMeetings w2)\<rparr>)))"

section \<open>The dispatcher\<close>

text \<open>
  The \<^verbatim>\<open>chrome.alarms.onAlarm\<close> listener. The weekly export touches none of the state
  modelled here.
\<close>

definition onAlarm :: "'a env_scheme \<Rightarrow> string \<Rightarrow> world \<Rightarrow> world" where
  "onAlarm e name w =
     (if name = ''heartbeat''
      then checkMeetingAwareness e
             (checkDistractionAlert e
               (checkProgressMilestones e
                 (aggregateDailyStats e
                   (persistActiveSession e w))))
      else if name = ''cleanup'' then runCleanup e w
      else if name = ''export'' then w
      else if name = ''classify'' then batchClassifyDomains e w
      else if name = ''morning_briefing'' then checkMorningBriefing e w
      else if name = ''ready_check'' then checkReadyToStart e w
      else if name = ''end_of_day'' then checkEndOfDay e w
      else w)"

text \<open>
  A start of the service worker (the browser evicts an idle worker and loads the script
  again at the next event): the module-level variables \<^verbatim>\<open>activeTabState\<close>, \<^verbatim>\<open>dailyState\<close>
  and \<^verbatim>\<open>notifiedMeetings\<close> take their initial values, and \<^verbatim>\<open>initialize()\<close> stores the
  missing default settings. The database and what has left the process stay.
\<close>

definition worker_start :: "world \<Rightarrow> world" where
  "worker_start w =
     w\<lparr>settings := initializeSettings (settings w),
       activeTabState := None,
       dailyState := initial_daily_state,
       notifiedMeetings := []\<rparr>"

text \<open>
  What can happen to the service worker: an alarm, a change of the active tab (a tab
  activated, or the active tab's load completed), a \<^verbatim>\<open>SET_SETTING\<close> message, or a start
  of the worker. Each handler is run to its end before the next event is taken; the
  source's listeners do not await their handlers, so this is the case in which no event
  arrives while a handler is suspended at an \<^verbatim>\<open>await\<close>.
\<close>

datatype event = Alarm string | TabChange tab | SET_SETTING string setting_value | Worker_start

fun step :: "env \<Rightarrow> event \<Rightarrow> world \<Rightarrow> world" where
  "step e (Alarm name) w = onAlarm e name w"
| "step e (TabChange t) w = handleTabChange e t w"
| "step e (SET_SETTING key v) w = w\<lparr>settings := (settings w)(key \<mapsto> v)\<rparr>"
| "step e Worker_start w = worker_start w"

fun run :: "world \<Rightarrow> (env \<times> event) list \<Rightarrow> world" where
  "run w [] = w"
| "run w ((e, ev) # rest) = run (step e ev w) rest"

text \<open>The notifications with a given id, and the times they were created at.\<close>

definition fired :: "string \<Rightarrow> world \<Rightarrow> notification list" where
  "fired i w = filter (\<lambda>n. id_n n = i) (notifications w)"

section \<open>Notions the properties are stated with\<close>

text \<open>
  The time of the sessions that the aggregation folds under a classification satisfying
  \<open>P\<close>.
\<close>

definition bucket_sum :: "classification_cache \<Rightarrow> (string \<Rightarrow> bool) \<Rightarrow> session list \<Rightarrow> int" where
  "bucket_sum cache P ss =
     sum_list (map duration (filter (\<lambda>s. P (session_classification cache s)) ss))"

text \<open>The snapshot one aggregation pass writes under the day it runs on.\<close>

definition snapshot :: "'c clock_scheme \<Rightarrow> 'a db_scheme \<Rightarrow> daily_stats" where
  "snapshot clk d =
     (let a = foldl (fold_session (domain_classifications d)) agg_init
                (sessions_of_day d (today clk))
      in \<lparr>totalTime = totalTime a, productiveTime = productiveTime a,
          distractionTime = distractionTime a, neutralTime = neutralTime a,
          date_s = today clk, topDomains = top_domains (domainMap a),
          goalProgress = goal_progress (productiveTime a)
                           (num_or (getSetting (settings d) ''focusGoalMinutes'') 240),
          sessionCount = length (sessions_of_day d (today clk)),
          updatedAt = now clk\<rparr>)"

subsection \<open>The scenario of 1 January 2024\<close>

text \<open>
  One session on \<^verbatim>\<open>github.com\<close> of 3,700,000 ms, from 10:00:00 to 11:01:40 UTC, as the
  tracker stamps it, in an otherwise empty database; the clock is read at 11:02:10 UTC.
\<close>

definition scenario_session :: session where
  "scenario_session =
     \<lparr>url = ''https://github.com/'', domain = ''github.com'', title = ''GitHub'',
      startTime = 1704103200000, date = ''2024-01-01'', classification = ''unclassified'',
      expiresAt = 1706695200000, endTime = 1704106900000, duration = 3700000\<rparr>"

definition scenario_db :: db where
  "scenario_db =
     \<lparr>browsing_sessions = [scenario_session], domain_classifications = Map.empty,
      daily_stats_store = Map.empty, settings = Map.empty\<rparr>"

definition scenario_clock :: clock where
  "scenario_clock = \<lparr>now = 1704106930000, today = ''2024-01-01'', hours = 11, minutes = 2\<rparr>"

text \<open>A cache record that classifies a domain as productive.\<close>

definition productive_record :: "string \<Rightarrow> domain_classification" where
  "productive_record d =
     \<lparr>domain_c = d, classification_c = ''productive'', confidence = 9 / 10,
      reason = ''code hosting'', classifiedAt = 1704103500000, source = ''ai''\<rparr>"

text \<open>
  The same day with a two-hour session, \<^verbatim>\<open>github.com\<close> cached as productive, and the
  user's daily focus goal set to 120 minutes on the options page.
\<close>

definition goal_db :: db where
  "goal_db =
     \<lparr>browsing_sessions = [scenario_session\<lparr>endTime := 1704110400000, duration := 7200000\<rparr>],
      domain_classifications = [''github.com'' \<mapsto> productive_record ''github.com''],
      daily_stats_store = Map.empty,
      settings = [''dailyFocusGoalMinutes'' \<mapsto> VNum 120]\<rparr>"

subsection \<open>A service worker with an open session\<close>

text \<open>The URL parser on the addresses the examples use.\<close>

definition example_hostname :: "string \<Rightarrow> string option" where
  "example_hostname u =
     (if u = ''https://github.com/'' then Some ''github.com''
      else if u = ''https://www.youtube.com/watch'' then Some ''www.youtube.com''
      else if u = ''https://example.org/'' then Some ''example.org''
      else None)"

text \<open>
  1 January 2024, 11:01:40 UTC; the calendar is not signed in and the classifier is
  unreachable.
\<close>

definition scenario_env :: env where
  "scenario_env =
     \<lparr>now = 1704106900000, today = ''2024-01-01'', hours = 11, minutes = 1,
      calendar_fetch = Inl NotAuthenticated,
      ai_request = (\<lambda>batch. Inl RequestFailed),
      url_hostname = example_hostname\<rparr>"

text \<open>
  The session on \<^verbatim>\<open>github.com\<close> opened at 10:00:00 UTC, still open.
\<close>

definition scenario_open :: active_tab where
  "scenario_open =
     \<lparr>url = ''https://github.com/'', domain = ''github.com'', title = ''GitHub'',
      startTime = 1704103200000, date = ''2024-01-01'', classification = ''unclassified'',
      expiresAt = 1706695200000\<rparr>"

definition scenario_world :: world where
  "scenario_world =
     \<lparr>browsing_sessions = [], domain_classifications = Map.empty,
      daily_stats_store = Map.empty, settings = Map.empty,
      activeTabState = Some scenario_open, dailyState = initial_daily_state,
      notifiedMeetings = [], calendar_cache = None, notifications = [], ai_calls = []\<rparr>"

definition example_tab :: tab where
  "example_tab = \<lparr>url_t = ''https://example.org/'', title_t = ''Example''\<rparr>"

subsection \<open>Cache records fetched twenty minutes before the scenario's clock reading\<close>

definition weather_entry :: "string cache_entry" where
  "weather_entry =
     \<lparr>data = ''72F, Clear'', fetchedAt = 1704105700000, expiresAt_x = Some 1704192100000\<rparr>"

definition standup :: calendar_event where
  "standup = \<lparr>id_ev = ''evt1'', title_ev = ''Standup'', start_ev = 1704108600000\<rparr>"

definition calendar_entry :: "calendar_event list cache_entry" where
  "calendar_entry = \<lparr>data = [standup], fetchedAt = 1704105700000, expiresAt_x = None\<rparr>"

subsection \<open>Batch classification\<close>

text \<open>
  The domains a run of the batch classification finds unresolved, in
  \<^verbatim>\<open>Set\<close> order.
\<close>

definition unresolved_domains :: "'a env_scheme \<Rightarrow> world \<Rightarrow> string list" where
  "unresolved_domains e w =
     uncached_domains (domain_classifications w) (sessions_of_day w (today e))"

text \<open>
  Forty-five sessions of the day on forty-five domains, none cached; an API key is set.
\<close>

definition site :: "nat \<Rightarrow> string" where
  "site i = ''site'' @ [char_of (48 + i div 10), char_of (48 + i mod 10)] @ ''.example''"

definition batch_world :: world where
  "batch_world =
     scenario_world
       \<lparr>browsing_sessions := map (\<lambda>i. scenario_session\<lparr>domain := site i\<rparr>) [1..<46],
        settings := [''anthropicApiKey'' \<mapsto> VStr ''sk-test''],
        activeTabState := None\<rparr>"

subsection \<open>Meeting awareness\<close>

text \<open>
  The warning lead in milliseconds, as \<^verbatim>\<open>checkMeetingAwareness\<close>
  computes it from the settings.
\<close>

definition lead_ms :: "world \<Rightarrow> int" where
  "lead_ms w = num_or (getSetting (settings w) ''meetingWarningMinutes'') 5 * 60 * 1000"

text \<open>Meeting awareness is not switched off.\<close>

definition meeting_on :: "world \<Rightarrow> bool" where
  "meeting_on w = (\<not> is_false (getSetting (settings w) ''enableMeetingAwareness''))"

text \<open>
  The events a handler obtains from the calendar at a tick, \<open>None\<close> when the
  call fails.
\<close>

definition fetched_events :: "'a env_scheme \<Rightarrow> world \<Rightarrow> calendar_event list option" where
  "fetched_events e w = fst (safe_todays_events e w)"

text \<open>The notification that warns of the meeting with id \<open>i\<close>.\<close>

definition warning :: "'a env_scheme \<Rightarrow> string \<Rightarrow> notification" where
  "warning e i = \<lparr>id_n = meeting_id i, title_n = ''AniMate: Heads up!'', priority = 2, created = now e\<rparr>"

text \<open>The test of the warning loop on the time until the start of an event.\<close>

definition in_window :: "'a env_scheme \<Rightarrow> int \<Rightarrow> int \<Rightarrow> calendar_event \<Rightarrow> bool" where
  "in_window e win buf ev =
     (start_ev ev - now e > win - buf \<and> start_ev ev - now e \<le> win + 2 * buf)"

text \<open>
  A tick on 1 January 2024 at epoch time \<open>t\<close>, local time \<open>h:m\<close>, at
  which the calendar request returns \<open>evs\<close>.
\<close>

definition tick :: "int \<Rightarrow> nat \<Rightarrow> nat \<Rightarrow> calendar_event list \<Rightarrow> env" where
  "tick t h m evs =
     \<lparr>now = t, today = ''2024-01-01'', hours = h, minutes = m,
      calendar_fetch = Inr evs, ai_request = (\<lambda>batch. Inl RequestFailed),
      url_hostname = example_hostname\<rparr>"

text \<open>Another meeting of the day, at 15:00 UTC.\<close>

definition retro :: calendar_event where
  "retro = \<lparr>id_ev = ''evt2'', title_ev = ''Retro'', start_ev = 1704121200000\<rparr>"

subsection \<open>Once-per-day rules\<close>

text \<open>The rules with a once-per-day policy.\<close>

datatype daily_rule =
  Morning_briefing | Ready_nudge | First_productive | One_hour_milestone | Daily_goal_milestone
  | End_of_day_summary

text \<open>The notification id each of them creates.\<close>

fun rule_id :: "daily_rule \<Rightarrow> string" where
  "rule_id Morning_briefing = ''morning_briefing''"
| "rule_id Ready_nudge = ''ready_nudge''"
| "rule_id First_productive = ''first_productive''"
| "rule_id One_hour_milestone = ''milestone_1hr''"
| "rule_id Daily_goal_milestone = ''milestone_goal''"
| "rule_id End_of_day_summary = ''end_of_day''"

text \<open>
  The mark that keeps a rule from firing again on day \<open>d\<close>: its flag in the
  ledger of that day, and for the end-of-day summary the stored record under
  \<^verbatim>\<open>eod_\<close> and the day.
\<close>

fun latched :: "daily_rule \<Rightarrow> string \<Rightarrow> world \<Rightarrow> bool" where
  "latched Morning_briefing d w =
     (date_d (dailyState w) = Some d \<and> morningBriefingSent (dailyState w))"
| "latched Ready_nudge d w =
     (date_d (dailyState w) = Some d \<and> readyNudgeSent (dailyState w))"
| "latched First_productive d w =
     (date_d (dailyState w) = Some d \<and> firstProductiveCelebrated (dailyState w))"
| "latched One_hour_milestone d w =
     (date_d (dailyState w) = Some d \<and> oneHourCelebrated (dailyState w))"
| "latched Daily_goal_milestone d w =
     (date_d (dailyState w) = Some d \<and> goalCelebrated (dailyState w))"
| "latched End_of_day_summary d w = (settings w (''eod_'' @ d) \<noteq> None)"

text \<open>
  A state transformer respects the once-per-day policy of rule \<open>r\<close> on day
  \<open>d\<close>: it does not fire a latched rule and keeps it latched, and it fires the
  rule at most once, latching it.
\<close>

definition guarded :: "daily_rule \<Rightarrow> string \<Rightarrow> (world \<Rightarrow> world) \<Rightarrow> bool" where
  "guarded r d f \<longleftrightarrow>
     (\<forall>w. (latched r d w \<longrightarrow>
              fired (rule_id r) (f w) = fired (rule_id r) w \<and> latched r d (f w))
        \<and> (fired (rule_id r) (f w) = fired (rule_id r) w
            \<or> (\<exists>n. fired (rule_id r) (f w) = fired (rule_id r) w @ [n] \<and> latched r d (f w))))"

text \<open>The scenario's service worker with no open session.\<close>

definition idle_world :: world where
  "idle_world = scenario_world\<lparr>activeTabState := None\<rparr>"

text \<open>
  The same with the scenario's session stored and \<^verbatim>\<open>github.com\<close>
  cached as productive.
\<close>

definition productive_world :: world where
  "productive_world =
     idle_world\<lparr>browsing_sessions := [scenario_session],
                domain_classifications := [''github.com'' \<mapsto> productive_record ''github.com'']\<rparr>"

text \<open>
  Two heartbeats after the scenario's session, thirty seconds apart, with a start of the
  worker between them.
\<close>

definition restart_trace :: "(env \<times> event) list" where
  "restart_trace =
     [(tick 1704106930000 11 2 [], Alarm ''heartbeat''),
      (tick 1704106945000 11 2 [], Worker_start),
      (tick 1704106960000 11 2 [], Alarm ''heartbeat'')]"

subsection \<open>The cooldown of the distraction alert\<close>

text \<open>The times at which distraction alerts were created, oldest first.\<close>

definition alert_times :: "world \<Rightarrow> int list" where
  "alert_times w = map created (fired ''distraction_alert'' w)"

text \<open>Each time is at least the cooldown after every earlier one.\<close>

definition spaced :: "int list \<Rightarrow> bool" where
  "spaced ts = sorted_wrt (\<lambda>a b. a + cooldown \<le> b) ts"

text \<open>
  The invariant of the cooldown on day \<open>d\<close>: the alerts are spaced; if there are
  any, the ledger is of day \<open>d\<close> and its stamp is not before any of them; and
  for a given earlier stamp \<open>l\<close>, the ledger is of day \<open>d\<close>, its
  stamp is not before \<open>l\<close>, and every alert is at least the cooldown after
  \<open>l\<close>.
\<close>

definition cooling :: "string \<Rightarrow> int option \<Rightarrow> world \<Rightarrow> bool" where
  "cooling d L w \<longleftrightarrow>
     spaced (alert_times w)
     \<and> (alert_times w \<noteq> [] \<longrightarrow>
          date_d (dailyState w) = Some d
          \<and> (\<forall>t \<in> set (alert_times w). t \<le> lastDistractionAlert (dailyState w)))
     \<and> (\<forall>l. L = Some l \<longrightarrow>
          date_d (dailyState w) = Some d \<and> l \<le> lastDistractionAlert (dailyState w)
          \<and> (\<forall>t \<in> set (alert_times w). l + cooldown \<le> t))"

text \<open>A state transformer preserves that invariant.\<close>

definition keeps_cooling :: "string \<Rightarrow> int option \<Rightarrow> (world \<Rightarrow> world) \<Rightarrow> bool" where
  "keeps_cooling d L f \<longleftrightarrow> (\<forall>w. cooling d L w \<longrightarrow> cooling d L (f w))"

text \<open>A cache record that classifies a domain as a distraction.\<close>

definition distraction_record :: "string \<Rightarrow> domain_classification" where
  "distraction_record d =
     \<lparr>domain_c = d, classification_c = ''distraction'', confidence = 9 / 10,
      reason = ''video streaming'', classifiedAt = 1704103500000, source = ''ai''\<rparr>"

text \<open>
  An hour on \<^verbatim>\<open>www.youtube.com\<close>, 22:00 to 23:00 UTC on 1 January
  2024.
\<close>

definition evening_session :: session where
  "evening_session =
     \<lparr>url = ''https://www.youtube.com/watch'', domain = ''www.youtube.com'', title = ''YouTube'',
      startTime = 1704146400000, date = ''2024-01-01'', classification = ''unclassified'',
      expiresAt = 1706738400000, endTime = 1704150000000, duration = 3600000\<rparr>"

text \<open>
  A service worker with that session stored, the domain cached as a distraction, and the
  alert threshold set to 15 minutes.
\<close>

definition distracted_world :: world where
  "distracted_world =
     idle_world
       \<lparr>browsing_sessions := [evening_session],
        domain_classifications := [''www.youtube.com'' \<mapsto> distraction_record ''www.youtube.com''],
        settings := [''distractionAlertMinutes'' \<mapsto> VNum 15]\<rparr>"

text \<open>A tab on the video site.\<close>

definition youtube_tab :: tab where
  "youtube_tab = \<lparr>url_t = ''https://www.youtube.com/watch'', title_t = ''YouTube''\<rparr>"

text \<open>
  A heartbeat at 23:50:00 UTC; on 2 January the video tab is opened at 00:00:10 and left at
  00:16:00; a heartbeat at 00:16:30.
\<close>

definition rollover_trace :: "(env \<times> event) list" where
  "rollover_trace =
     [(tick 1704153000000 23 50 [], Alarm ''heartbeat''),
      ((tick 1704153610000 0 0 [])\<lparr>today := ''2024-01-02''\<rparr>, TabChange youtube_tab),
      ((tick 1704154560000 0 16 [])\<lparr>today := ''2024-01-02''\<rparr>, TabChange example_tab),
      ((tick 1704154590000 0 16 [])\<lparr>today := ''2024-01-02''\<rparr>, Alarm ''heartbeat'')]"

text \<open>Heartbeats at 23:20:00, 23:20:30 and 23:50:00 UTC on 1 January.\<close>

definition evening_trace :: "(env \<times> event) list" where
  "evening_trace =
     [(tick 1704151200000 23 20 [], Alarm ''heartbeat''),
      (tick 1704151230000 23 20 [], Alarm ''heartbeat''),
      (tick 1704153000000 23 50 [], Alarm ''heartbeat'')]"

text \<open>Heartbeats at 23:20:00 and 23:20:30 UTC with a start of the worker between them.\<close>

definition restart_evening_trace :: "(env \<times> event) list" where
  "restart_evening_trace =
     [(tick 1704151200000 23 20 [], Alarm ''heartbeat''),
      (tick 1704151215000 23 20 [], Worker_start),
      (tick 1704151230000 23 20 [], Alarm ''heartbeat'')]"

text \<open>
  The first quarter of an hour of 2 January on the video site, 00:00:10 to 00:16:00 UTC.
\<close>

definition night_session :: session where
  "night_session =
     \<lparr>url = ''https://www.youtube.com/watch'', domain = ''www.youtube.com'', title = ''YouTube'',
      startTime = 1704153610000, date = ''2024-01-02'', classification = ''unclassified'',
      expiresAt = 1706745610000, endTime = 1704154560000, duration = 950000\<rparr>"

text \<open>The heartbeat at 00:16:30 UTC on 2 January.\<close>

definition night_tick :: env where
  "night_tick = (tick 1704154590000 0 16 [])\<lparr>today := ''2024-01-02''\<rparr>"

text \<open>
  The service worker at that heartbeat, after the aggregation: the ledger is still the one
  of 1 January with an alert stamped at 23:50:00, and the statistics of 2 January hold
  the night's session.
\<close>

definition rolled_world :: world where
  "rolled_world =
     aggregateDailyStats night_tick
       (distracted_world
          \<lparr>browsing_sessions := [evening_session, night_session],
           dailyState := (fresh_daily_state ''2024-01-01'')\<lparr>lastDistractionAlert := 1704153000000\<rparr>\<rparr>)"

section \<open>Properties of the daily aggregation\<close>

lemma fold_session_totals:
  "totalTime (fold_session cache a s) = totalTime a + duration s"
  "productiveTime (fold_session cache a s) =
     productiveTime a + (if session_classification cache s = ''productive'' then duration s else 0)"
  "distractionTime (fold_session cache a s) =
     distractionTime a + (if session_classification cache s = ''distraction'' then duration s else 0)"
  "neutralTime (fold_session cache a s) =
     neutralTime a + (if session_classification cache s \<noteq> ''productive''
                        \<and> session_classification cache s \<noteq> ''distraction'' then duration s else 0)"
  by (simp_all add: fold_session_def add_to_bucket_def Let_def)

lemma foldl_fold_session_totals:
  "totalTime (foldl (fold_session cache) a ss) = totalTime a + sum_list (map duration ss)"
  "productiveTime (foldl (fold_session cache) a ss) =
     productiveTime a + bucket_sum cache (\<lambda>c. c = ''productive'') ss"
  "distractionTime (foldl (fold_session cache) a ss) =
     distractionTime a + bucket_sum cache (\<lambda>c. c = ''distraction'') ss"
  "neutralTime (foldl (fold_session cache) a ss) =
     neutralTime a + bucket_sum cache (\<lambda>c. c \<noteq> ''productive'' \<and> c \<noteq> ''distraction'') ss"
  by (induction ss arbitrary: a; simp add: fold_session_totals bucket_sum_def)+

lemma bucket_sum_partition:
  "sum_list (map duration ss) =
     bucket_sum cache (\<lambda>c. c = ''productive'') ss
   + bucket_sum cache (\<lambda>c. c = ''distraction'') ss
   + bucket_sum cache (\<lambda>c. c \<noteq> ''productive'' \<and> c \<noteq> ''distraction'') ss"
  by (induction ss) (auto simp: bucket_sum_def)

lemma aggregate_writes_snapshot:
  "aggregateDailyStats clk d = d\<lparr>daily_stats_store := (daily_stats_store d)(today clk \<mapsto> snapshot clk d)\<rparr>"
  by (simp add: aggregateDailyStats_def snapshot_def Let_def)

lemma aggregate_frame [simp]:
  "browsing_sessions (aggregateDailyStats clk d) = browsing_sessions d"
  "domain_classifications (aggregateDailyStats clk d) = domain_classifications d"
  "settings (aggregateDailyStats clk d) = settings d"
  "db.more (aggregateDailyStats clk d) = db.more d"
  by (simp_all add: aggregate_writes_snapshot)

text \<open>
  C10. Every snapshot the aggregator writes has \<open>totalTime\<close> equal to the sum of its three
  category times; each session's duration is counted in the total and in exactly one
  category, the one its resolved classification selects; and \<open>sessionCount\<close> is the
  number of session records read for the day.
\<close>

theorem C10_totals_partition:
  "\<exists>st. daily_stats_store (aggregateDailyStats clk d) (today clk) = Some st
     \<and> totalTime st = productiveTime st + distractionTime st + neutralTime st
     \<and> totalTime st = sum_list (map duration (sessions_of_day d (today clk)))
     \<and> productiveTime st =
         bucket_sum (domain_classifications d) (\<lambda>c. c = ''productive'') (sessions_of_day d (today clk))
     \<and> distractionTime st =
         bucket_sum (domain_classifications d) (\<lambda>c. c = ''distraction'') (sessions_of_day d (today clk))
     \<and> neutralTime st =
         bucket_sum (domain_classifications d) (\<lambda>c. c \<noteq> ''productive'' \<and> c \<noteq> ''distraction'')
           (sessions_of_day d (today clk))
     \<and> sessionCount st = length (sessions_of_day d (today clk))"
  unfolding aggregate_writes_snapshot
  by (simp add: snapshot_def Let_def foldl_fold_session_totals agg_init_def
      bucket_sum_partition [of _ "domain_classifications d"])

lemma scenario_sessions:
  "sessions_of_day (scenario_db\<lparr>domain_classifications := c\<rparr>) ''2024-01-01'' = [scenario_session]"
  "sessions_of_day scenario_db ''2024-01-01'' = [scenario_session]"
  by (simp_all add: sessions_of_day_def scenario_db_def scenario_session_def)

text \<open>
  C10, at the scenario: the one session of 3,700,000 ms makes the total, the three
  category times add up to it, and one session is counted.
\<close>

theorem C10_witness:
  "map_option (\<lambda>st. (totalTime st, productiveTime st + distractionTime st + neutralTime st, sessionCount st))
     (daily_stats_store (aggregateDailyStats scenario_clock scenario_db) ''2024-01-01'')
   = Some (3700000, 3700000, 1)"
  using C10_totals_partition [of scenario_clock scenario_db]
  by (auto simp add: scenario_sessions scenario_clock_def scenario_session_def)

subsection \<open>Classification of a session (C1)\<close>

text \<open>
  How the two resolvers of the source classify. The tracker's check consults the
  allow-list and then the cache; the aggregation consults the session's stamp and then
  the cache, and neither static list.
\<close>

lemma checkIfProductive_cases:
  "dmn \<in> set KNOWN_PRODUCTIVE \<Longrightarrow> checkIfProductive cache dmn"
  "dmn \<notin> set KNOWN_PRODUCTIVE \<Longrightarrow>
     checkIfProductive cache dmn = (\<exists>c. cache dmn = Some c \<and> classification_c c = ''productive'')"
  by (auto simp add: checkIfProductive_def split: option.splits)

lemma session_classification_cases:
  "classification s \<noteq> [] \<Longrightarrow> classification s \<noteq> ''unclassified'' \<Longrightarrow>
     session_classification cache s = classification s"
  "classification s = [] \<or> classification s = ''unclassified'' \<Longrightarrow> cache (domain s) = Some r \<Longrightarrow>
     session_classification cache s = classification_c r"
  "classification s = [] \<or> classification s = ''unclassified'' \<Longrightarrow> cache (domain s) = None \<Longrightarrow>
     session_classification cache s = ''unclassified''"
  by (auto simp add: session_classification_def Let_def)

lemma scenario_cached_productive:
  "map_option (\<lambda>st. (productiveTime st, distractionTime st))
     (daily_stats_store
        (aggregateDailyStats scenario_clock
           (scenario_db\<lparr>domain_classifications := [''github.com'' \<mapsto> productive_record ''github.com'']\<rparr>))
        ''2024-01-01'')
   = Some (3700000, 0)"
  by (simp add: aggregateDailyStats_def Let_def scenario_clock_def scenario_db_def
      productive_record_def sessions_of_day_def scenario_session_def fold_session_def
      session_classification_def add_to_bucket_def agg_init_def)

text \<open>
  C1 says that a domain of the static allow-list resolves to productive, and one of the
  deny-list to distraction, before the cache is looked at, in the tracker's check and in
  the aggregation, so that the single 3,700,000 ms session on \<^verbatim>\<open>github.com\<close> of
  2024-01-01, with no cache record, gives \<open>productiveTime = 3,700,000\<close>. The code does
  not do that. \<^verbatim>\<open>github.com\<close> is on the allow-list, which \<^verbatim>\<open>config.js\<close> introduces as
  "built-in, no AI needed", and the tracker's check answers productive for it; but the
  aggregation leaves the session unclassified and counts it as neutral:
  \<open>productiveTime = 0\<close>, \<open>neutralTime = 3,700,000\<close>. A session on the deny-listed
  \<^verbatim>\<open>youtube.com\<close> stays unclassified in the same way.
\<close>

theorem C1_static_lists_ignored:
  "''github.com'' \<in> set KNOWN_PRODUCTIVE
   \<and> domain_classifications scenario_db ''github.com'' = None
   \<and> checkIfProductive (domain_classifications scenario_db) ''github.com''
   \<and> session_classification (domain_classifications scenario_db) scenario_session = ''unclassified''
   \<and> map_option (\<lambda>st. (productiveTime st, distractionTime st, neutralTime st))
        (daily_stats_store (aggregateDailyStats scenario_clock scenario_db) ''2024-01-01'')
      = Some (0, 0, 3700000)
   \<and> ''youtube.com'' \<in> set KNOWN_DISTRACTIONS
   \<and> session_classification Map.empty (scenario_session\<lparr>domain := ''youtube.com''\<rparr>)
       = ''unclassified''"
  by (simp add: KNOWN_PRODUCTIVE_def KNOWN_DISTRACTIONS_def checkIfProductive_def
      aggregateDailyStats_def Let_def scenario_clock_def
      scenario_db_def sessions_of_day_def scenario_session_def fold_session_def
      session_classification_def add_to_bucket_def agg_init_def)

subsection \<open>Goal progress (C3)\<close>

text \<open>
  C3 holds of the formula but not of the goal it is computed against: the aggregation
  reads the setting \<^verbatim>\<open>focusGoalMinutes\<close>, which nothing writes and which has no default,
  so it always falls back to 240 minutes, while the user's goal is stored under
  \<^verbatim>\<open>dailyFocusGoalMinutes\<close> (the key the milestone and end-of-day rules read). With the
  goal set to 120 minutes and 7,200,000 ms of productive time the snapshot stores 50,
  where the claim's formula gives 100.
\<close>

theorem C3_goal_key_mismatch:
  "getSetting (settings goal_db) ''dailyFocusGoalMinutes'' = Some (VNum 120)
   \<and> getSetting (settings goal_db) ''focusGoalMinutes'' = None
   \<and> map_option (\<lambda>st. (productiveTime st, goalProgress st))
        (daily_stats_store (aggregateDailyStats (scenario_clock\<lparr>now := 1704110430000\<rparr>) goal_db)
           ''2024-01-01'')
      = Some (7200000, 50)
   \<and> goal_progress 7200000 120 = 100"
  by (simp add: getSetting_def DEFAULT_CONFIG_def goal_db_def aggregateDailyStats_def Let_def
      scenario_clock_def productive_record_def sessions_of_day_def scenario_session_def
      fold_session_def session_classification_def add_to_bucket_def agg_init_def
      goal_progress_def num_or_def)

subsection \<open>Running the aggregation twice (C4)\<close>

text \<open>
  C4 as stated fails: two passes over the same sessions, thirty seconds apart, write
  snapshots whose \<open>updatedAt\<close> fields differ.
\<close>

theorem C4_counterexample:
  "map_option updatedAt
     (daily_stats_store (aggregateDailyStats scenario_clock scenario_db) ''2024-01-01'')
     = Some 1704106930000
   \<and> map_option updatedAt
       (daily_stats_store
          (aggregateDailyStats (scenario_clock\<lparr>now := 1704106960000\<rparr>)
             (aggregateDailyStats scenario_clock scenario_db)) ''2024-01-01'')
     = Some 1704106960000"
  by (auto simp add: aggregate_writes_snapshot scenario_clock_def snapshot_def Let_def)

lemma snapshot_cong:
  assumes "today clk2 = today clk1"
    and "browsing_sessions d2 = browsing_sessions d1"
    and "domain_classifications d2 = domain_classifications d1"
    and "settings d2 ''focusGoalMinutes'' = settings d1 ''focusGoalMinutes''"
  shows "snapshot clk2 d2 = (snapshot clk1 d1)\<lparr>updatedAt := now clk2\<rparr>"
  using assms by (simp add: snapshot_def Let_def sessions_of_day_def getSetting_def)

text \<open>
  C4, amended. Two aggregation passes on the same day over the same session records and
  classification cache (and the same goal setting) write snapshots that agree in every
  field except \<open>updatedAt\<close>, which is the time of the pass.
\<close>

theorem C4_same_snapshot_but_updatedAt:
  assumes "today clk2 = today clk1"
    and "browsing_sessions d2 = browsing_sessions d1"
    and "domain_classifications d2 = domain_classifications d1"
    and "settings d2 ''focusGoalMinutes'' = settings d1 ''focusGoalMinutes''"
  shows "\<exists>s1. daily_stats_store (aggregateDailyStats clk1 d1) (today clk1) = Some s1
           \<and> daily_stats_store (aggregateDailyStats clk2 d2) (today clk1)
               = Some (s1\<lparr>updatedAt := now clk2\<rparr>)"
  using assms snapshot_cong [OF assms] by (simp add: aggregate_writes_snapshot)

text \<open>
  C4, amended, at the scenario: the second pass runs on the database the first left.
\<close>

theorem C4_witness:
  "daily_stats_store
     (aggregateDailyStats (scenario_clock\<lparr>now := 1704106960000\<rparr>)
        (aggregateDailyStats scenario_clock scenario_db)) ''2024-01-01''
   = map_option (\<lambda>s1. s1\<lparr>updatedAt := 1704106960000\<rparr>)
       (daily_stats_store (aggregateDailyStats scenario_clock scenario_db) ''2024-01-01'')"
  using C4_same_snapshot_but_updatedAt
    [of "scenario_clock\<lparr>now := 1704106960000\<rparr>" scenario_clock
        "aggregateDailyStats scenario_clock scenario_db" scenario_db]
  by (auto simp add: scenario_clock_def)

section \<open>Frame properties of the helpers\<close>

lemma notify_frame [simp]:
  "browsing_sessions (notify clk i t p w) = browsing_sessions w"
  "domain_classifications (notify clk i t p w) = domain_classifications w"
  "daily_stats_store (notify clk i t p w) = daily_stats_store w"
  "settings (notify clk i t p w) = settings w"
  "activeTabState (notify clk i t p w) = activeTabState w"
  "dailyState (notify clk i t p w) = dailyState w"
  "notifiedMeetings (notify clk i t p w) = notifiedMeetings w"
  "calendar_cache (notify clk i t p w) = calendar_cache w"
  "ai_calls (notify clk i t p w) = ai_calls w"
  "notifications (notify clk i t p w) =
     notifications w @ [\<lparr>id_n = i, title_n = t, priority = p, created = now clk\<rparr>]"
  by (simp_all add: notify_def)

lemma reset_frame [simp]:
  "browsing_sessions (resetDailyStateIfNeeded clk w) = browsing_sessions w"
  "domain_classifications (resetDailyStateIfNeeded clk w) = domain_classifications w"
  "daily_stats_store (resetDailyStateIfNeeded clk w) = daily_stats_store w"
  "settings (resetDailyStateIfNeeded clk w) = settings w"
  "activeTabState (resetDailyStateIfNeeded clk w) = activeTabState w"
  "notifiedMeetings (resetDailyStateIfNeeded clk w) = notifiedMeetings w"
  "calendar_cache (resetDailyStateIfNeeded clk w) = calendar_cache w"
  "ai_calls (resetDailyStateIfNeeded clk w) = ai_calls w"
  "notifications (resetDailyStateIfNeeded clk w) = notifications w"
  by (simp_all add: resetDailyStateIfNeeded_def)

section \<open>Properties of the session tracker\<close>

lemma celebrate_sessions [simp]:
  "browsing_sessions (celebrateFirstProductiveAction clk dmn w) = browsing_sessions w"
  by (simp add: celebrateFirstProductiveAction_def celebrate_resume_def Let_def)

lemma handleTabChange_sessions:
  "browsing_sessions (handleTabChange e t w) =
     browsing_sessions w @
       (case activeTabState w of
          None \<Rightarrow> []
        | Some a \<Rightarrow> if now e - startTime a > 1000
                    then [close_session a (now e) (now e - startTime a)] else [])"
  by (simp add: handleTabChange_def Let_def split: option.splits)

text \<open>
  C9. What a change of the active tab adds to the session store is at most the one
  record closing the open session: its \<open>endTime\<close> is now, its \<open>duration\<close> is now minus
  its \<open>startTime\<close>, so \<open>endTime \<ge> startTime\<close>, and its duration is not below one second;
  when the open session lasted less than one second nothing is stored.
\<close>

theorem C9_persisted_sessions:
  "\<exists>new. browsing_sessions (handleTabChange e t w) = browsing_sessions w @ new
      \<and> (\<forall>s \<in> set new. endTime s = now e \<and> duration s = now e - startTime s
             \<and> startTime s \<le> endTime s \<and> \<not> duration s < 1000
             \<and> (\<exists>a. activeTabState w = Some a \<and> s = close_session a (now e) (now e - startTime a)))
      \<and> (\<forall>a. activeTabState w = Some a \<and> now e - startTime a < 1000 \<longrightarrow> new = [])
      \<and> (\<forall>a. activeTabState w = Some a \<and> now e - startTime a > 1000 \<longrightarrow> length new = 1)"
  unfolding handleTabChange_sessions
  by (auto simp add: close_session_def split: option.splits)

text \<open>
  C9 at the open session of the scenario: leaving the tab at 11:01:40 stores the
  3,700,000 ms session; leaving it half a second after it was opened stores nothing.
\<close>

theorem C9_witness:
  "browsing_sessions (handleTabChange scenario_env example_tab scenario_world) = [scenario_session]
   \<and> endTime scenario_session = now scenario_env
   \<and> startTime scenario_session \<le> endTime scenario_session
   \<and> browsing_sessions
        (handleTabChange (scenario_env\<lparr>now := 1704103200500\<rparr>) example_tab scenario_world) = []"
  using C9_persisted_sessions [of scenario_env example_tab scenario_world]
    C9_persisted_sessions [of "scenario_env\<lparr>now := 1704103200500\<rparr>" example_tab scenario_world]
  by (simp add: handleTabChange_sessions scenario_env_def scenario_world_def scenario_open_def
      scenario_session_def close_session_def)

section \<open>Properties of the cached remote fetches\<close>

text \<open>
  C8 as stated fails for the calendar: with a record fetched twenty minutes ago (time to
  live five minutes) and a failing request, \<^verbatim>\<open>getTodaysEvents\<close> returns the cached events
  as they are, without the \<^verbatim>\<open>stale\<close> annotation.
\<close>

theorem C8_counterexample:
  "now scenario_env - fetchedAt calendar_entry = 20 * 60 * 1000
   \<and> result (getTodaysEvents scenario_env (Inl RequestFailed) (Some calendar_entry))
       = Inr (Plain [standup])
   \<and> result (getTodaysEvents scenario_env (Inl RequestFailed) (Some calendar_entry))
       \<noteq> Inr (Stale [standup])"
  by (simp add: getTodaysEvents_def cached_api_def CACHE_TTL_def scenario_env_def calendar_entry_def)

text \<open>
  C8, amended. In each of the four cached fetches (weather and GitHub handlers, calendar
  and mail clients), a cached record younger than the fetch's time to live is returned
  without a call of the fetcher. When the record is older and the fetcher fails, the
  weather and GitHub handlers return the cached payload annotated \<^verbatim>\<open>stale: true\<close>, the
  calendar and mail clients return it unannotated. When the fetcher fails and there is no
  cached record, the failure reaches the caller.
\<close>

theorem C8_stale_tolerant_fetch:
  "(cached = Some c \<and> now clk - fetchedAt c < 15 * 60 * 1000 \<longrightarrow>
      result (GET_WEATHER clk fetcher cached) = Inr (Plain (data c))
      \<and> \<not> fetcher_called (GET_WEATHER clk fetcher cached))
   \<and> (cached = Some c \<and> now clk - fetchedAt c < 5 * 60 * 1000 \<longrightarrow>
      result (GET_GITHUB_REPOS clk fetcher cached) = Inr (Plain (data c))
      \<and> \<not> fetcher_called (GET_GITHUB_REPOS clk fetcher cached))
   \<and> (cal = Some k \<and> now clk - fetchedAt k < 5 * 60 * 1000 \<longrightarrow>
      result (getTodaysEvents clk cal_fetcher cal) = Inr (Plain (data k))
      \<and> \<not> fetcher_called (getTodaysEvents clk cal_fetcher cal))
   \<and> (cached = Some c \<and> now clk - fetchedAt c < 2 * 60 * 1000 \<longrightarrow>
      result (getUnreadEmails clk fetcher cached) = Inr (Plain (data c))
      \<and> \<not> fetcher_called (getUnreadEmails clk fetcher cached))
   \<and> (cached = Some c \<and> \<not> now clk - fetchedAt c < 15 * 60 * 1000 \<and> fetcher = Inl err \<longrightarrow>
      result (GET_WEATHER clk fetcher cached) = Inr (Stale (data c)))
   \<and> (cached = Some c \<and> \<not> now clk - fetchedAt c < 5 * 60 * 1000 \<and> fetcher = Inl err \<longrightarrow>
      result (GET_GITHUB_REPOS clk fetcher cached) = Inr (Stale (data c)))
   \<and> (cal = Some k \<and> \<not> now clk - fetchedAt k < 5 * 60 * 1000 \<and> cal_fetcher = Inl err \<longrightarrow>
      result (getTodaysEvents clk cal_fetcher cal) = Inr (Plain (data k)))
   \<and> (cached = Some c \<and> \<not> now clk - fetchedAt c < 2 * 60 * 1000 \<and> fetcher = Inl err \<longrightarrow>
      result (getUnreadEmails clk fetcher cached) = Inr (Plain (data c)))
   \<and> (cached = None \<and> fetcher = Inl err \<longrightarrow>
      result (GET_WEATHER clk fetcher cached) = Inl err
      \<and> result (GET_GITHUB_REPOS clk fetcher cached) = Inl err
      \<and> result (getUnreadEmails clk fetcher cached) = Inl err)
   \<and> (cal = None \<and> cal_fetcher = Inl err \<longrightarrow>
      result (getTodaysEvents clk cal_fetcher cal) = Inl err)"
  by (simp add: GET_WEATHER_def GET_GITHUB_REPOS_def getTodaysEvents_def getUnreadEmails_def
      cached_handler_def cached_api_def CACHE_TTL_def)

text \<open>
  C8, amended, at the weather record: five minutes after it was fetched it is returned
  without a call; twenty minutes after, with the request failing, it is returned
  annotated stale; with no record the failure is returned; the calendar's record comes
  back unannotated.
\<close>

theorem C8_witness:
  "result (GET_WEATHER (scenario_env\<lparr>now := 1704106000000\<rparr>) (Inl RequestFailed) (Some weather_entry))
     = Inr (Plain ''72F, Clear'')
   \<and> \<not> fetcher_called
        (GET_WEATHER (scenario_env\<lparr>now := 1704106000000\<rparr>) (Inl RequestFailed) (Some weather_entry))
   \<and> now scenario_env - fetchedAt weather_entry = 20 * 60 * 1000
   \<and> result (GET_WEATHER scenario_env (Inl RequestFailed) (Some weather_entry))
       = Inr (Stale ''72F, Clear'')
   \<and> result (GET_WEATHER scenario_env (Inl RequestFailed) (None :: string cache_entry option))
       = Inl RequestFailed
   \<and> result (getTodaysEvents scenario_env (Inl RequestFailed) (Some calendar_entry))
       = Inr (Plain [standup])"
  using
    C8_stale_tolerant_fetch [of "Some weather_entry" weather_entry "scenario_env\<lparr>now := 1704106000000\<rparr>"
      "Inl RequestFailed" "Some calendar_entry" calendar_entry "Inl RequestFailed" RequestFailed]
    C8_stale_tolerant_fetch [of "Some weather_entry" weather_entry scenario_env
      "Inl RequestFailed" "Some calendar_entry" calendar_entry "Inl RequestFailed" RequestFailed]
    C8_stale_tolerant_fetch [of "None :: string cache_entry option" weather_entry scenario_env
      "Inl RequestFailed" "Some calendar_entry" calendar_entry "Inl RequestFailed" RequestFailed]
  by (simp add: scenario_env_def weather_entry_def calendar_entry_def)

section \<open>Properties of the batch classification\<close>

lemma put_classifications_Cons:
  "put_classifications t (x # xs) c = put_classifications t xs (c(domain_i x \<mapsto> ai_record t x))"
  by (simp add: put_classifications_def)

lemma put_classifications_keeps:
  "c k = Some r \<Longrightarrow> source r = ''ai'' \<and> classifiedAt r = t \<Longrightarrow>
     \<exists>r'. put_classifications t xs c k = Some r' \<and> source r' = ''ai'' \<and> classifiedAt r' = t"
proof (induction xs arbitrary: c r)
  case Nil
  then show ?case by (simp add: put_classifications_def)
next
  case (Cons x xs)
  let ?c = "c(domain_i x \<mapsto> ai_record t x)"
  have "\<exists>r'. ?c k = Some r' \<and> source r' = ''ai'' \<and> classifiedAt r' = t"
    using Cons.prems by (simp add: ai_record_def)
  then obtain r' where "?c k = Some r'" "source r' = ''ai'' \<and> classifiedAt r' = t"
    by blast
  then show ?case
    unfolding put_classifications_Cons by (rule Cons.IH)
qed

lemma put_classifications_source:
  "item \<in> set items \<Longrightarrow>
     \<exists>r. put_classifications t items c (domain_i item) = Some r
         \<and> source r = ''ai'' \<and> classifiedAt r = t"
proof (induction items arbitrary: c)
  case Nil
  then show ?case by simp
next
  case (Cons x xs)
  show ?case
  proof (cases "item = x")
    case True
    show ?thesis
      unfolding put_classifications_Cons True
      by (rule put_classifications_keeps [where r = "ai_record t x"]) (simp_all add: ai_record_def)
  next
    case False
    with Cons.prems have "item \<in> set xs" by simp
    then show ?thesis unfolding put_classifications_Cons by (rule Cons.IH)
  qed
qed

lemma batch_ai_calls:
  "isAIEnabled (settings w) \<Longrightarrow>
     ai_calls (batchClassifyDomains e w) =
       ai_calls w @ (if unresolved_domains e w = [] then [] else [take 20 (unresolved_domains e w)])"
  by (auto simp add: batchClassifyDomains_def classifyDomains_def unresolved_domains_def isAIEnabled_def
      Let_def aggregate_writes_snapshot split: sum.splits classify_reply.splits)

lemma batch_failed:
  "ai_request e (take 20 (unresolved_domains e w)) = Inl err \<Longrightarrow>
     domain_classifications (batchClassifyDomains e w) = domain_classifications w"
  by (auto simp add: batchClassifyDomains_def classifyDomains_def unresolved_domains_def
      Let_def aggregate_writes_snapshot split: sum.splits classify_reply.splits)

lemma batch_succeeded:
  "isAIEnabled (settings w) \<Longrightarrow> unresolved_domains e w \<noteq> [] \<Longrightarrow>
   ai_request e (take 20 (unresolved_domains e w)) = Inr items \<Longrightarrow>
     domain_classifications (batchClassifyDomains e w)
       = put_classifications (now e) items (domain_classifications w)"
  by (auto simp add: batchClassifyDomains_def classifyDomains_def unresolved_domains_def isAIEnabled_def
      Let_def aggregate_writes_snapshot split: sum.splits classify_reply.splits)

text \<open>
  C2, amended. A run of the batch classification with the classifier disabled changes
  nothing. With it enabled the run makes at most one call of the classifier, with the
  first \<open>min 20 n\<close> of the \<open>n\<close> unresolved domains, and none when \<open>n = 0\<close>. When the call
  fails the classification cache is unchanged. When it succeeds the returned items are
  put into the cache, each with source \<^verbatim>\<open>ai\<close>.
\<close>

theorem C2_one_call_per_run:
  "(\<not> isAIEnabled (settings w) \<longrightarrow> batchClassifyDomains e w = w)
   \<and> (isAIEnabled (settings w) \<longrightarrow>
        ai_calls (batchClassifyDomains e w) =
          ai_calls w @ (if unresolved_domains e w = [] then [] else [take 20 (unresolved_domains e w)])
        \<and> length (take 20 (unresolved_domains e w)) = min 20 (length (unresolved_domains e w))
        \<and> (\<forall>err. ai_request e (take 20 (unresolved_domains e w)) = Inl err \<longrightarrow>
              domain_classifications (batchClassifyDomains e w) = domain_classifications w)
        \<and> (\<forall>items. unresolved_domains e w \<noteq> [] \<and> ai_request e (take 20 (unresolved_domains e w)) = Inr items \<longrightarrow>
              domain_classifications (batchClassifyDomains e w)
                = put_classifications (now e) items (domain_classifications w)
              \<and> (\<forall>item \<in> set items.
                    \<exists>r. domain_classifications (batchClassifyDomains e w) (domain_i item) = Some r
                        \<and> source r = ''ai'')))"
proof -
  have "\<not> isAIEnabled (settings w) \<Longrightarrow> batchClassifyDomains e w = w"
    by (simp add: batchClassifyDomains_def)
  moreover have "\<And>items item. item \<in> set items \<Longrightarrow>
      \<exists>r. put_classifications (now e) items (domain_classifications w) (domain_i item) = Some r
          \<and> source r = ''ai''"
    using put_classifications_source by blast
  ultimately show ?thesis
    by (simp add: batch_ai_calls batch_failed batch_succeeded min.commute)
qed

text \<open>
  The \<^verbatim>\<open>CLASSIFY_DOMAIN\<close> message handler on a failed call: the uncached domains come
  back as fallback objects, and the cache is left as it was.
\<close>

lemma classify_handler_failed:
  assumes "isAIEnabled (settings w)"
    and "filter (\<lambda>d. domain_classifications w d = None) domains \<noteq> []"
    and "ai_request e (take 20 (filter (\<lambda>d. domain_classifications w d = None) domains)) = Inl err"
  shows "domain_classifications (snd (CLASSIFY_DOMAIN e domains w)) = domain_classifications w"
    and "fst (CLASSIFY_DOMAIN e domains w) =
           map (\<lambda>d. Record (the (domain_classifications w d)))
             (filter (\<lambda>d. domain_classifications w d \<noteq> None) domains)
           @ map Fallback (filter (\<lambda>d. domain_classifications w d = None) domains)"
  using assms
  by (auto simp add: CLASSIFY_DOMAIN_def classifyDomains_def isAIEnabled_def Let_def
      split: sum.splits classify_reply.splits)

lemma batch_unresolved: "unresolved_domains scenario_env batch_world = map site [1..<46]"
  by (simp add: unresolved_domains_def batch_world_def scenario_world_def sessions_of_day_def
      scenario_session_def scenario_env_def uncached_domains_def set_add_def site_def
      upt_rec [of _ "numeral _"])

lemma batch_enabled: "isAIEnabled (settings batch_world)"
  by (simp add: isAIEnabled_def batch_world_def getSetting_def DEFAULT_CONFIG_def truthy_def)

text \<open>
  C2 as stated fails: with 45 unresolved domains one run sends one batch, the first 20
  domains, not three; and when that call fails the first domain has no cache record
  afterwards.
\<close>

theorem C2_counterexample:
  "length (unresolved_domains scenario_env batch_world) = 45
   \<and> isAIEnabled (settings batch_world)
   \<and> ai_calls (batchClassifyDomains scenario_env batch_world) = [map site [1..<21]]
   \<and> length (ai_calls (batchClassifyDomains scenario_env batch_world)) \<noteq> 3
   \<and> domain_classifications (batchClassifyDomains scenario_env batch_world) (site 1) = None"
proof -
  have calls: "ai_calls (batchClassifyDomains scenario_env batch_world) = [map site [1..<21]]"
    unfolding batch_ai_calls [OF batch_enabled] batch_unresolved
    by (simp add: batch_world_def scenario_world_def take_map)
  have "ai_request scenario_env (take 20 (unresolved_domains scenario_env batch_world)) = Inl RequestFailed"
    by (simp add: scenario_env_def)
  then have "domain_classifications (batchClassifyDomains scenario_env batch_world)
      = domain_classifications batch_world"
    by (rule batch_failed)
  then have "domain_classifications (batchClassifyDomains scenario_env batch_world) (site 1) = None"
    by (simp add: batch_world_def scenario_world_def)
  then show ?thesis
    using calls by (simp add: batch_unresolved batch_enabled)
qed

text \<open>C2, amended, at the 45 domains with a failing classifier.\<close>

theorem C2_witness:
  "ai_calls (batchClassifyDomains scenario_env batch_world) = [take 20 (map site [1..<46])]
   \<and> length (take 20 (map site [1..<46])) = 20
   \<and> domain_classifications (batchClassifyDomains scenario_env batch_world) = Map.empty"
  using C2_one_call_per_run [of batch_world scenario_env] batch_enabled
  by (simp add: batch_unresolved) (simp add: scenario_env_def batch_world_def scenario_world_def)

section \<open>Properties of the meeting warnings\<close>

lemma safe_todays_events_frame [simp]:
  "browsing_sessions (snd (safe_todays_events e w)) = browsing_sessions w"
  "domain_classifications (snd (safe_todays_events e w)) = domain_classifications w"
  "daily_stats_store (snd (safe_todays_events e w)) = daily_stats_store w"
  "settings (snd (safe_todays_events e w)) = settings w"
  "activeTabState (snd (safe_todays_events e w)) = activeTabState w"
  "dailyState (snd (safe_todays_events e w)) = dailyState w"
  "notifiedMeetings (snd (safe_todays_events e w)) = notifiedMeetings w"
  "notifications (snd (safe_todays_events e w)) = notifications w"
  "ai_calls (snd (safe_todays_events e w)) = ai_calls w"
  by (simp_all add: safe_todays_events_def Let_def split: sum.splits reply.splits)

lemma warn_meeting_frame [simp]:
  "browsing_sessions (warn_meeting e win buf w ev) = browsing_sessions w"
  "domain_classifications (warn_meeting e win buf w ev) = domain_classifications w"
  "daily_stats_store (warn_meeting e win buf w ev) = daily_stats_store w"
  "settings (warn_meeting e win buf w ev) = settings w"
  "activeTabState (warn_meeting e win buf w ev) = activeTabState w"
  "dailyState (warn_meeting e win buf w ev) = dailyState w"
  "calendar_cache (warn_meeting e win buf w ev) = calendar_cache w"
  "ai_calls (warn_meeting e win buf w ev) = ai_calls w"
  by (simp_all add: warn_meeting_def Let_def)

lemma warn_meeting_effect:
  "notifiedMeetings (warn_meeting e win buf w ev) =
     (if id_ev ev \<notin> set (notifiedMeetings w) \<and> in_window e win buf ev
      then notifiedMeetings w @ [id_ev ev] else notifiedMeetings w)"
  "fired (meeting_id i) (warn_meeting e win buf w ev) =
     fired (meeting_id i) w @
       (if id_ev ev = i \<and> i \<notin> set (notifiedMeetings w) \<and> in_window e win buf ev
        then [warning e i] else [])"
  by (auto simp add: warn_meeting_def Let_def in_window_def set_add_def fired_def warning_def meeting_id_def)

lemma warn_loop_frame [simp]:
  "browsing_sessions (foldl (warn_meeting e win buf) w evs) = browsing_sessions w"
  "domain_classifications (foldl (warn_meeting e win buf) w evs) = domain_classifications w"
  "daily_stats_store (foldl (warn_meeting e win buf) w evs) = daily_stats_store w"
  "settings (foldl (warn_meeting e win buf) w evs) = settings w"
  "activeTabState (foldl (warn_meeting e win buf) w evs) = activeTabState w"
  "dailyState (foldl (warn_meeting e win buf) w evs) = dailyState w"
  "calendar_cache (foldl (warn_meeting e win buf) w evs) = calendar_cache w"
  "ai_calls (foldl (warn_meeting e win buf) w evs) = ai_calls w"
  by (induction evs arbitrary: w; simp)+

lemma warn_loop_mem:
  "i \<in> set (notifiedMeetings (foldl (warn_meeting e win buf) w evs)) \<longleftrightarrow>
     i \<in> set (notifiedMeetings w) \<or> (\<exists>ev \<in> set evs. id_ev ev = i \<and> in_window e win buf ev)"
  by (induction evs arbitrary: w) (auto simp add: warn_meeting_effect)

lemma warn_loop_fired:
  "fired (meeting_id i) (foldl (warn_meeting e win buf) w evs) =
     fired (meeting_id i) w @
       (if i \<notin> set (notifiedMeetings w) \<and> (\<exists>ev \<in> set evs. id_ev ev = i \<and> in_window e win buf ev)
        then [warning e i] else [])"
proof (induction evs arbitrary: w)
  case Nil
  then show ?case by simp
next
  case (Cons ev evs)
  show ?case
    unfolding foldl_Cons Cons.IH
    by (auto simp add: warn_meeting_effect)
qed

lemma checkMeetingAwareness_unfold:
  "checkMeetingAwareness e w =
     (if \<not> meeting_on w then w
      else case fetched_events e w of
             None \<Rightarrow> snd (safe_todays_events e w)
           | Some evs \<Rightarrow>
               if evs = [] then snd (safe_todays_events e w)
               else (foldl (warn_meeting e (lead_ms w) (60 * 1000)) (snd (safe_todays_events e w)) evs)
                      \<lparr>notifiedMeetings :=
                         prune_meetings e evs
                           (notifiedMeetings
                              (foldl (warn_meeting e (lead_ms w) (60 * 1000))
                                 (snd (safe_todays_events e w)) evs))\<rparr>)"
  by (simp add: checkMeetingAwareness_def meeting_on_def fetched_events_def lead_ms_def Let_def
      case_prod_beta split: option.splits)

lemma fired_frame [simp]:
  "fired i (w\<lparr>notifiedMeetings := x\<rparr>) = fired i w"
  "fired i (snd (safe_todays_events e w)) = fired i w"
  by (simp_all add: fired_def)

lemma meeting_fired:
  "fired (meeting_id i) (checkMeetingAwareness e w) =
     fired (meeting_id i) w @
       (if meeting_on w \<and> i \<notin> set (notifiedMeetings w)
           \<and> (\<exists>evs. fetched_events e w = Some evs
                 \<and> (\<exists>ev \<in> set evs. id_ev ev = i \<and> in_window e (lead_ms w) (60 * 1000) ev))
        then [warning e i] else [])"
  by (auto simp add: checkMeetingAwareness_unfold warn_loop_fired split: option.splits)

lemma prune_meetings_mem:
  "i \<in> set (prune_meetings e evs ns) \<longleftrightarrow>
     i \<in> set ns \<and> (case find (\<lambda>ev. id_ev ev = i) evs of
                      None \<Rightarrow> True
                    | Some ev \<Rightarrow> \<not> now e - start_ev ev > 60 * 60 * 1000)"
  by (auto simp add: prune_meetings_def)

lemma meeting_notified_after:
  "i \<in> set (notifiedMeetings (checkMeetingAwareness e w)) \<longleftrightarrow>
     (if \<not> meeting_on w then i \<in> set (notifiedMeetings w)
      else case fetched_events e w of
             None \<Rightarrow> i \<in> set (notifiedMeetings w)
           | Some evs \<Rightarrow>
               (i \<in> set (notifiedMeetings w)
                  \<or> (\<exists>ev \<in> set evs. id_ev ev = i \<and> in_window e (lead_ms w) (60 * 1000) ev))
               \<and> (case find (\<lambda>ev. id_ev ev = i) evs of
                     None \<Rightarrow> True
                   | Some ev \<Rightarrow> \<not> now e - start_ev ev > 60 * 60 * 1000))"
  by (auto simp add: checkMeetingAwareness_unfold prune_meetings_mem warn_loop_mem
      split: option.splits)

lemma find_distinct:
  "distinct (map id_ev evs) \<Longrightarrow> ev \<in> set evs \<Longrightarrow> find (\<lambda>x. id_ev x = id_ev ev) evs = Some ev"
  by (induction evs) (auto simp: rev_image_eqI)

text \<open>
  C7, amended. Within one lifetime of the service worker, with each tick run to its end
  before the next: a tick creates a warning for a meeting only when the meeting is in
  the fetched list with its time until start in \<open>(lead - 1 min, lead + 2 min]\<close>. With
  meeting awareness on, a fetched meeting that starts exactly the lead time away and has
  not been warned of gets one warning; with distinct event ids and a non-negative lead it
  is in the warned set afterwards, and no later tick warns of it again while it is
  there, in particular not a tick one minute later. A tick at which the fetched list has
  the meeting and the clock is more than one hour past its start removes it from the
  warned set. A start of the worker empties the warned set.
\<close>

theorem C7_meeting_warnings:
  "(fired (meeting_id i) (checkMeetingAwareness e w) \<noteq> fired (meeting_id i) w \<longrightarrow>
      (\<exists>evs. fetched_events e w = Some evs
         \<and> (\<exists>ev \<in> set evs. id_ev ev = i
               \<and> lead_ms w - 60 * 1000 < start_ev ev - now e
               \<and> start_ev ev - now e \<le> lead_ms w + 2 * (60 * 1000))))
   \<and> (meeting_on w \<and> fetched_events e w = Some evs \<and> ev \<in> set evs
        \<and> start_ev ev - now e = lead_ms w \<and> id_ev ev \<notin> set (notifiedMeetings w) \<longrightarrow>
        fired (meeting_id (id_ev ev)) (checkMeetingAwareness e w)
          = fired (meeting_id (id_ev ev)) w @ [warning e (id_ev ev)]
        \<and> (distinct (map id_ev evs) \<and> 0 \<le> lead_ms w \<longrightarrow>
             id_ev ev \<in> set (notifiedMeetings (checkMeetingAwareness e w))
             \<and> fired (meeting_id (id_ev ev)) (checkMeetingAwareness e2 (checkMeetingAwareness e w))
                 = fired (meeting_id (id_ev ev)) (checkMeetingAwareness e w)))
   \<and> (i \<in> set (notifiedMeetings w) \<longrightarrow>
        fired (meeting_id i) (checkMeetingAwareness e w) = fired (meeting_id i) w)
   \<and> (meeting_on w \<and> fetched_events e w = Some evs
        \<and> find (\<lambda>x. id_ev x = i) evs = Some late \<and> now e - start_ev late > 60 * 60 * 1000 \<longrightarrow>
        i \<notin> set (notifiedMeetings (checkMeetingAwareness e w)))
   \<and> notifiedMeetings (step e3 Worker_start w) = []"
proof -
  have a: "fired (meeting_id i) (checkMeetingAwareness e w) \<noteq> fired (meeting_id i) w \<longrightarrow>
      (\<exists>evs. fetched_events e w = Some evs
         \<and> (\<exists>ev \<in> set evs. id_ev ev = i
               \<and> lead_ms w - 60 * 1000 < start_ev ev - now e
               \<and> start_ev ev - now e \<le> lead_ms w + 2 * (60 * 1000)))"
    by (auto simp add: meeting_fired in_window_def split: if_splits)
  have b: "fired (meeting_id (id_ev ev)) (checkMeetingAwareness e w)
          = fired (meeting_id (id_ev ev)) w @ [warning e (id_ev ev)]"
    if "meeting_on w" "fetched_events e w = Some evs" "ev \<in> set evs"
       "start_ev ev - now e = lead_ms w" "id_ev ev \<notin> set (notifiedMeetings w)"
  proof -
    have "in_window e (lead_ms w) (60 * 1000) ev"
      using that(4) by (simp add: in_window_def)
    with that show ?thesis
      unfolding meeting_fired by auto
  qed
  have c: "id_ev ev \<in> set (notifiedMeetings (checkMeetingAwareness e w))"
    if "meeting_on w" "fetched_events e w = Some evs" "ev \<in> set evs"
       "start_ev ev - now e = lead_ms w" "distinct (map id_ev evs)" "0 \<le> lead_ms w"
  proof -
    have "in_window e (lead_ms w) (60 * 1000) ev"
      using that(4) by (simp add: in_window_def)
    moreover have "\<not> now e - start_ev ev > 60 * 60 * 1000"
      using that(4,6) by simp
    ultimately show ?thesis
      using that find_distinct [of evs ev]
      unfolding meeting_notified_after by auto
  qed
  have d: "fired (meeting_id j) (checkMeetingAwareness e' w') = fired (meeting_id j) w'"
    if "j \<in> set (notifiedMeetings w')" for j w' and e' :: "'x env_scheme"
    using that by (simp add: meeting_fired)
  have f: "i \<notin> set (notifiedMeetings (checkMeetingAwareness e w))"
    if "meeting_on w" "fetched_events e w = Some evs"
       "find (\<lambda>x. id_ev x = i) evs = Some late" "now e - start_ev late > 60 * 60 * 1000"
    using that by (simp add: meeting_notified_after)
  have g: "notifiedMeetings (step e3 Worker_start w) = []"
    by (simp add: worker_start_def)
  show ?thesis
    using a b c d [of "id_ev ev" "checkMeetingAwareness e w" e2] d [of i w e] f g by blast
qed

lemma fetched_tick:
  "calendar_cache w = None \<Longrightarrow> fetched_events (tick t h m evs) w = Some evs"
  by (simp add: fetched_events_def safe_todays_events_def getTodaysEvents_def cached_api_def tick_def Let_def)

lemma lead_default: "settings w = Map.empty \<Longrightarrow> lead_ms w = 300000 \<and> meeting_on w"
  by (simp add: lead_ms_def meeting_on_def getSetting_def DEFAULT_CONFIG_def num_or_def is_false_def)

lemmas meeting_eval =
  checkMeetingAwareness_def safe_todays_events_def getTodaysEvents_def cached_api_def CACHE_TTL_def
  warn_meeting_def prune_meetings_def notify_def set_add_def Let_def tick_def
  getSetting_def DEFAULT_CONFIG_def num_or_def is_false_def scenario_world_def standup_def retro_def
  meeting_id_def

lemma warned_world:
  "checkMeetingAwareness (tick 1704108300000 11 25 [standup]) scenario_world =
     scenario_world
       \<lparr>notifiedMeetings := [''evt1''],
        calendar_cache := Some \<lparr>data = [standup], fetchedAt = 1704108300000, expiresAt_x = None\<rparr>,
        notifications := [warning (tick 1704108300000 11 25 [standup]) ''evt1'']\<rparr>"
  by (simp add: meeting_eval warning_def)

text \<open>
  C7 as stated fails across a start of the worker, which empties the warned set, a
  module-level variable: the standup of 11:30 is exactly the lead of five minutes away
  at 11:25:00 and is warned of; the worker starts again, and the tick at 11:25:30 warns
  of it a second time.
\<close>

theorem C7_counterexample:
  "start_ev standup - now (tick 1704108300000 11 25 [standup]) = lead_ms scenario_world
   \<and> map created (fired (meeting_id ''evt1'')
       (checkMeetingAwareness (tick 1704108330000 11 25 [standup])
          (step (tick 1704108315000 11 25 []) Worker_start
             (checkMeetingAwareness (tick 1704108300000 11 25 [standup]) scenario_world))))
     = [1704108300000, 1704108330000]"
  unfolding warned_world
  by (simp add: meeting_eval lead_ms_def warning_def fired_def worker_start_def
      initializeSettings_def)

text \<open>
  The clean-up loop, which the source introduces with "keep Set from growing
  indefinitely" and "remove events that are more than 1 hour in the past", looks each
  warned id up in the events fetched at this tick and skips an id it does not find. The
  standup of 11:30 is warned of at 11:25; at 12:31, more than an hour past its start,
  the calendar no longer lists it, and its id is still in the warned set. Moved to 13:00
  under the same id, it gets no warning at 12:55, five minutes before it starts.
\<close>

lemma entry_not_pruned_when_unlisted:
  "now (tick 1704112260000 12 31 [retro]) - start_ev standup > 60 * 60 * 1000
   \<and> notifiedMeetings
        (checkMeetingAwareness (tick 1704112260000 12 31 [retro])
           (checkMeetingAwareness (tick 1704108300000 11 25 [standup]) scenario_world))
       = [''evt1'']
   \<and> start_ev (standup\<lparr>start_ev := 1704114000000\<rparr>) - now (tick 1704113700000 12 55 [])
       = 5 * 60 * 1000
   \<and> fired (meeting_id ''evt1'')
        (checkMeetingAwareness (tick 1704113700000 12 55 [standup\<lparr>start_ev := 1704114000000\<rparr>])
          (checkMeetingAwareness (tick 1704112260000 12 31 [retro])
            (checkMeetingAwareness (tick 1704108300000 11 25 [standup]) scenario_world)))
       = [warning (tick 1704108300000 11 25 [standup]) ''evt1'']"
  unfolding warned_world
  by (simp add: meeting_eval warning_def fired_def)

text \<open>
  C7, amended, at the standup: it is warned of once at 11:25, not again at 11:26, and
  pruned at 12:31 when the calendar still lists it.
\<close>

theorem C7_witness:
  "fired (meeting_id ''evt1'') (checkMeetingAwareness (tick 1704108300000 11 25 [standup]) scenario_world)
     = [warning (tick 1704108300000 11 25 [standup]) ''evt1'']
   \<and> fired (meeting_id ''evt1'')
        (checkMeetingAwareness (tick 1704108360000 11 26 [standup])
           (checkMeetingAwareness (tick 1704108300000 11 25 [standup]) scenario_world))
       = [warning (tick 1704108300000 11 25 [standup]) ''evt1'']
   \<and> ''evt1'' \<notin> set (notifiedMeetings
        (checkMeetingAwareness (tick 1704112260000 12 31 [standup])
           (checkMeetingAwareness (tick 1704108300000 11 25 [standup]) scenario_world)))"
proof -
  let ?t1 = "tick 1704108300000 11 25 [standup]"
  let ?t2 = "tick 1704108360000 11 26 [standup]"
  let ?t3 = "tick 1704112260000 12 31 [standup]"
  let ?w1 = "checkMeetingAwareness ?t1 scenario_world"
  have f1: "fetched_events ?t1 scenario_world = Some [standup]"
    by (rule fetched_tick) (simp add: scenario_world_def)
  have f3: "fetched_events ?t3 ?w1 = Some [standup]"
    unfolding warned_world
    by (simp add: fetched_events_def safe_todays_events_def getTodaysEvents_def cached_api_def
        CACHE_TTL_def tick_def Let_def)
  have l1: "lead_ms scenario_world = 300000" "meeting_on scenario_world"
    using lead_default [of scenario_world] by (simp_all add: scenario_world_def)
  have l3: "meeting_on ?w1"
    unfolding warned_world using lead_default [of scenario_world]
    by (simp add: scenario_world_def meeting_on_def)
  from C7_meeting_warnings [of "''evt1''" ?t1 scenario_world "[standup]" standup ?t2 standup]
    C7_meeting_warnings [of "''evt1''" ?t3 ?w1 "[standup]" standup ?t2 standup]
    f1 f3 l1 l3
  show ?thesis
    by (simp add: standup_def tick_def scenario_world_def fired_def)
qed

section \<open>Properties of the once-per-day rules\<close>

lemma guarded_comp:
  assumes f: "guarded r d f" and g: "guarded r d g"
  shows "guarded r d (\<lambda>w. g (f w))"
  unfolding guarded_def
proof (intro allI)
  fix w
  have kept: "fired (rule_id r) (g (f w)) = fired (rule_id r) w \<and> latched r d (g (f w))"
    if "latched r d w"
  proof -
    from f that have "fired (rule_id r) (f w) = fired (rule_id r) w" "latched r d (f w)"
      unfolding guarded_def by blast+
    with g show ?thesis unfolding guarded_def by metis
  qed
  from f consider "fired (rule_id r) (f w) = fired (rule_id r) w"
    | n where "fired (rule_id r) (f w) = fired (rule_id r) w @ [n]" "latched r d (f w)"
    unfolding guarded_def by blast
  then have "fired (rule_id r) (g (f w)) = fired (rule_id r) w
      \<or> (\<exists>n. fired (rule_id r) (g (f w)) = fired (rule_id r) w @ [n] \<and> latched r d (g (f w)))"
  proof cases
    case 1
    from g have "fired (rule_id r) (g (f w)) = fired (rule_id r) (f w)
      \<or> (\<exists>n. fired (rule_id r) (g (f w)) = fired (rule_id r) (f w) @ [n] \<and> latched r d (g (f w)))"
      unfolding guarded_def by blast
    with 1 show ?thesis by simp
  next
    case 2
    from g 2(2) have "fired (rule_id r) (g (f w)) = fired (rule_id r) (f w)" "latched r d (g (f w))"
      unfolding guarded_def by blast+
    with 2(1) show ?thesis by simp
  qed
  with kept show "(latched r d w \<longrightarrow>
        fired (rule_id r) (g (f w)) = fired (rule_id r) w \<and> latched r d (g (f w)))
     \<and> (fired (rule_id r) (g (f w)) = fired (rule_id r) w
         \<or> (\<exists>n. fired (rule_id r) (g (f w)) = fired (rule_id r) w @ [n] \<and> latched r d (g (f w))))"
    by blast
qed

lemma guarded_quiet:
  assumes "\<And>w. dailyState (f w) = dailyState w"
    and "\<And>w. settings (f w) = settings w"
    and "\<And>w. fired (rule_id r) (f w) = fired (rule_id r) w"
  shows "guarded r d f"
  unfolding guarded_def using assms by (cases r) simp_all

lemma fired_notify [simp]:
  "fired i (notify clk j t p w) =
     fired i w @ (if j = i then [\<lparr>id_n = j, title_n = t, priority = p, created = now clk\<rparr>] else [])"
  by (simp add: fired_def notify_def)

lemma fired_updates [simp]:
  "fired i (w\<lparr>dailyState := ds\<rparr>) = fired i w"
  "fired i (w\<lparr>settings := st\<rparr>) = fired i w"
  "fired i (w\<lparr>activeTabState := a\<rparr>) = fired i w"
  "fired i (w\<lparr>browsing_sessions := b\<rparr>) = fired i w"
  "fired i (w\<lparr>domain_classifications := c\<rparr>) = fired i w"
  "fired i (w\<lparr>daily_stats_store := s\<rparr>) = fired i w"
  "fired i (w\<lparr>ai_calls := ac\<rparr>) = fired i w"
  "fired i (w\<lparr>calendar_cache := cc\<rparr>) = fired i w"
  "fired i (resetDailyStateIfNeeded clk w) = fired i w"
  by (simp_all add: fired_def)

lemma guarded_morning: "today e = d \<Longrightarrow> guarded r d (checkMorningBriefing e)"
  unfolding guarded_def
  by (cases r) (auto simp add: checkMorningBriefing_def resetDailyStateIfNeeded_def Let_def fresh_daily_state_def)

lemma guarded_ready: "today e = d \<Longrightarrow> guarded r d (checkReadyToStart e)"
  unfolding guarded_def
  by (cases r) (auto simp add: checkReadyToStart_def resetDailyStateIfNeeded_def Let_def fresh_daily_state_def)

lemma guarded_eod: "today e = d \<Longrightarrow> guarded r d (checkEndOfDay e)"
  unfolding guarded_def
  by (cases r) (auto simp add: checkEndOfDay_def Let_def split: option.splits)

lemma guarded_milestones: "today e = d \<Longrightarrow> guarded r d (checkProgressMilestones e)"
  unfolding guarded_def
  by (cases r) (auto simp add: checkProgressMilestones_def resetDailyStateIfNeeded_def Let_def fresh_daily_state_def split: option.splits)

lemma guarded_distraction: "today e = d \<Longrightarrow> guarded r d (checkDistractionAlert e)"
  unfolding guarded_def
  by (cases r) (auto simp add: checkDistractionAlert_def resetDailyStateIfNeeded_def Let_def fresh_daily_state_def split: option.splits)

lemma guarded_celebrate: "today e = d \<Longrightarrow> guarded r d (celebrateFirstProductiveAction e dmn)"
  unfolding guarded_def
  by (cases r) (auto simp add: celebrateFirstProductiveAction_def celebrate_resume_def
      resetDailyStateIfNeeded_def Let_def fresh_daily_state_def)

lemma guarded_set_setting: "guarded r d (\<lambda>w. w\<lparr>settings := (settings w)(k \<mapsto> v)\<rparr>)"
  unfolding guarded_def by (cases r) auto

lemma persist_quiet [simp]:
  "dailyState (persistActiveSession clk w) = dailyState w"
  "settings (persistActiveSession clk w) = settings w"
  "notifications (persistActiveSession clk w) = notifications w"
  by (simp_all add: persistActiveSession_def Let_def split: option.splits)

lemma aggregate_quiet [simp]:
  "dailyState (aggregateDailyStats clk w) = dailyState w"
  "notifications (aggregateDailyStats clk w) = notifications w"
  by (simp_all add: aggregate_writes_snapshot)

lemma cleanup_quiet [simp]:
  "dailyState (runCleanup clk w) = dailyState w"
  "settings (runCleanup clk w) = settings w"
  "notifications (runCleanup clk w) = notifications w"
  by (simp_all add: runCleanup_def)

lemma batch_quiet [simp]:
  "dailyState (batchClassifyDomains e w) = dailyState w"
  "settings (batchClassifyDomains e w) = settings w"
  "notifications (batchClassifyDomains e w) = notifications w"
  by (simp_all add: batchClassifyDomains_def classifyDomains_def Let_def aggregate_writes_snapshot
      split: sum.splits classify_reply.splits)

lemma meeting_quiet [simp]:
  "dailyState (checkMeetingAwareness e w) = dailyState w"
  "settings (checkMeetingAwareness e w) = settings w"
  by (simp_all add: checkMeetingAwareness_unfold split: option.splits)

lemma rule_id_not_meeting: "rule_id r \<noteq> meeting_id j"
  by (cases r) (simp_all add: meeting_id_def)

lemma warn_meeting_other:
  "\<forall>j. i \<noteq> meeting_id j \<Longrightarrow> fired i (warn_meeting e win buf w ev) = fired i w"
  by (auto simp add: warn_meeting_def Let_def)

lemma warn_loop_other:
  "\<forall>j. i \<noteq> meeting_id j \<Longrightarrow> fired i (foldl (warn_meeting e win buf) w evs) = fired i w"
  by (induction evs arbitrary: w) (simp_all add: warn_meeting_other)

lemma meeting_other:
  "\<forall>j. i \<noteq> meeting_id j \<Longrightarrow> fired i (checkMeetingAwareness e w) = fired i w"
  by (simp add: checkMeetingAwareness_unfold warn_loop_other split: option.splits)

lemma guarded_heartbeat:
  assumes "today e = d"
  shows "guarded r d (\<lambda>w. checkMeetingAwareness e
             (checkDistractionAlert e
               (checkProgressMilestones e
                 (aggregateDailyStats e
                   (persistActiveSession e w)))))"
proof -
  have 1: "guarded r d (persistActiveSession e)"
    by (rule guarded_quiet) (simp_all add: fired_def)
  have 2: "guarded r d (aggregateDailyStats e)"
    by (rule guarded_quiet) (simp_all add: fired_def)
  have 5: "guarded r d (checkMeetingAwareness e)"
    by (rule guarded_quiet) (simp_all add: meeting_other rule_id_not_meeting)
  note 3 = guarded_milestones [OF assms, of r] and 4 = guarded_distraction [OF assms, of r]
  have a: "guarded r d (\<lambda>w. aggregateDailyStats e (persistActiveSession e w))"
    by (rule guarded_comp [OF 1 2])
  have b: "guarded r d (\<lambda>w. checkProgressMilestones e
              (aggregateDailyStats e (persistActiveSession e w)))"
    by (rule guarded_comp [OF a 3])
  have c: "guarded r d (\<lambda>w. checkDistractionAlert e (checkProgressMilestones e
              (aggregateDailyStats e (persistActiveSession e w))))"
    by (rule guarded_comp [OF b 4])
  show ?thesis
    by (rule guarded_comp [OF c 5])
qed

lemma guarded_alarm: "today e = d \<Longrightarrow> guarded r d (onAlarm e name)"
proof -
  assume d: "today e = d"
  have id: "guarded r d (\<lambda>w. w)"
    by (rule guarded_quiet) simp_all
  have cl: "guarded r d (runCleanup e)"
    by (rule guarded_quiet) (simp_all add: fired_def)
  have ba: "guarded r d (batchClassifyDomains e)"
    by (rule guarded_quiet) (simp_all add: fired_def)
  have *: "onAlarm e name =
     (if name = ''heartbeat''
      then (\<lambda>w. checkMeetingAwareness e (checkDistractionAlert e (checkProgressMilestones e
                   (aggregateDailyStats e (persistActiveSession e w)))))
      else if name = ''cleanup'' then runCleanup e
      else if name = ''export'' then (\<lambda>w. w)
      else if name = ''classify'' then batchClassifyDomains e
      else if name = ''morning_briefing'' then checkMorningBriefing e
      else if name = ''ready_check'' then checkReadyToStart e
      else if name = ''end_of_day'' then checkEndOfDay e
      else (\<lambda>w. w))"
    by (rule ext) (simp add: onAlarm_def)
  show ?thesis
    unfolding *
    using guarded_heartbeat [OF d, of r] cl id ba guarded_morning [OF d, of r]
      guarded_ready [OF d, of r] guarded_eod [OF d, of r]
    by simp
qed

lemma guarded_tab: "today e = d \<Longrightarrow> guarded r d (handleTabChange e t)"
proof -
  assume d: "today e = d"
  let ?close = "\<lambda>w0. case activeTabState w0 of
                 None \<Rightarrow> w0
               | Some a \<Rightarrow>
                   (let d = now e - startTime a
                    in if d > 1000
                       then w0\<lparr>browsing_sessions := browsing_sessions w0 @ [close_session a (now e) d]\<rparr>
                       else w0)"
  have close: "dailyState (?close w) = dailyState w" "settings (?close w) = settings w"
    "notifications (?close w) = notifications w" for w :: world
    by (simp_all add: Let_def split: option.splits)
  show ?thesis
  proof (cases "shouldExclude (url_t t)")
    case True
    then have "handleTabChange e t = (\<lambda>w. (?close w)\<lparr>activeTabState := None\<rparr>)"
      by (intro ext) (simp add: handleTabChange_def Let_def)
    moreover have "guarded r d (\<lambda>w. (?close w)\<lparr>activeTabState := None\<rparr>)"
      by (rule guarded_quiet) (simp_all add: close fired_def)
    ultimately show ?thesis by simp
  next
    case False
    let ?open = "\<lambda>w. (?close w)\<lparr>activeTabState :=
                         Some \<lparr>url = url_t t, domain = extractDomain (url_hostname e) (url_t t),
                               title = title_t t, startTime = now e,
                               date = today e, classification = ''unclassified'',
                               expiresAt = now e + 30 * 24 * 60 * 60 * 1000\<rparr>\<rparr>"
    from False have "handleTabChange e t =
        (\<lambda>w. celebrateFirstProductiveAction e (extractDomain (url_hostname e) (url_t t)) (?open w))"
      by (intro ext) (simp add: handleTabChange_def Let_def)
    moreover have "guarded r d ?open"
      by (rule guarded_quiet) (simp_all add: close fired_def)
    ultimately show ?thesis
      using guarded_comp [OF _ guarded_celebrate [OF d, of r]] by simp
  qed
qed

lemma guarded_worker_start: "guarded End_of_day_summary d worker_start"
  unfolding guarded_def
  by (auto simp add: worker_start_def initializeSettings_def fired_def)

lemma guarded_step:
  "today e = d \<Longrightarrow> ev \<noteq> Worker_start \<or> r = End_of_day_summary \<Longrightarrow> guarded r d (step e ev)"
proof (cases ev)
  case (Alarm name)
  assume "today e = d"
  from guarded_alarm [OF this, of r name] Alarm show ?thesis
    by (simp add: guarded_def)
next
  case (TabChange t)
  assume "today e = d"
  from guarded_tab [OF this, of r t] TabChange show ?thesis
    by (simp add: guarded_def)
next
  case (SET_SETTING k v)
  from guarded_set_setting [of r d k v] SET_SETTING show ?thesis
    by (simp add: guarded_def)
next
  case Worker_start
  assume "ev \<noteq> Worker_start \<or> r = End_of_day_summary"
  with Worker_start have "r = End_of_day_summary" by simp
  with guarded_worker_start [of d] Worker_start show ?thesis
    by (simp add: guarded_def)
qed

lemma guarded_run:
  "\<forall>x \<in> set evs. today (fst x) = d \<and> (snd x = Worker_start \<longrightarrow> r = End_of_day_summary) \<Longrightarrow>
     guarded r d (\<lambda>w. run w evs)"
proof (induction evs)
  case Nil
  show ?case by (rule guarded_quiet) simp_all
next
  case (Cons x evs)
  obtain e ev where x: "x = (e, ev)" by (cases x)
  with Cons.prems have e: "today e = d" and ev: "ev \<noteq> Worker_start \<or> r = End_of_day_summary"
    by auto
  from Cons.prems have "\<forall>x \<in> set evs. today (fst x) = d
      \<and> (snd x = Worker_start \<longrightarrow> r = End_of_day_summary)"
    by simp
  from guarded_comp [OF guarded_step [OF e ev] Cons.IH [OF this]] x
  show ?case by simp
qed

lemma reset_idem:
  "resetDailyStateIfNeeded e (resetDailyStateIfNeeded e w) = resetDailyStateIfNeeded e w"
  by (simp add: resetDailyStateIfNeeded_def fresh_daily_state_def)

lemma rules_reset_first:
  "checkMorningBriefing e (resetDailyStateIfNeeded e w) = checkMorningBriefing e w"
  "checkReadyToStart e (resetDailyStateIfNeeded e w) = checkReadyToStart e w"
  "checkProgressMilestones e (resetDailyStateIfNeeded e w) = checkProgressMilestones e w"
  "checkDistractionAlert e (resetDailyStateIfNeeded e w) = checkDistractionAlert e w"
  "celebrateFirstProductiveAction e dmn (resetDailyStateIfNeeded e w) = celebrateFirstProductiveAction e dmn w"
  by (simp_all only: checkMorningBriefing_def checkReadyToStart_def checkProgressMilestones_def
      checkDistractionAlert_def celebrateFirstProductiveAction_def reset_idem)

text \<open>
  Two runs of the first-productive handler that both passed the flag test before either
  resumed (a second tab event arriving while the first handler waits for the cache) both
  create the notification.
\<close>

lemma celebrate_interleaved:
  assumes "checkIfProductive (domain_classifications w) dmn"
  shows "fired ''first_productive'' (celebrate_resume e2 dmn (celebrate_resume e1 dmn w)) =
           fired ''first_productive'' w
           @ [\<lparr>id_n = ''first_productive'', title_n = ''AniMate: Great Start!'', priority = 1,
                created = now e1\<rparr>,
              \<lparr>id_n = ''first_productive'', title_n = ''AniMate: Great Start!'', priority = 1,
                created = now e2\<rparr>]"
  using assms by (simp add: celebrate_resume_def Let_def)

text \<open>
  C5 as stated fails: the ledger is a module-level variable, and a start of the worker
  re-initialises it. With one productive hour stored, the heartbeat at 11:02:10 creates
  the one-hour milestone, the worker starts again, and the heartbeat at 11:02:40 creates
  it a second time on the same day.
\<close>

theorem C5_counterexample:
  "map (\<lambda>x. today (fst x)) restart_trace = [''2024-01-01'', ''2024-01-01'', ''2024-01-01'']
   \<and> map created (fired (rule_id One_hour_milestone) (run productive_world restart_trace))
       = [1704106930000, 1704106960000]"
  by (simp add: restart_trace_def productive_world_def idle_world_def scenario_world_def onAlarm_def
      persistActiveSession_def aggregateDailyStats_def sessions_of_day_def scenario_session_def
      fold_session_def session_classification_def add_to_bucket_def agg_init_def productive_record_def
      top_domains_def goal_progress_def worker_start_def initializeSettings_def
      checkProgressMilestones_def checkDistractionAlert_def checkMeetingAwareness_def cooldown_def
      resetDailyStateIfNeeded_def initial_daily_state_def fresh_daily_state_def tick_def
      getSetting_def DEFAULT_CONFIG_def num_or_def is_false_def Let_def notify_def fired_def
      safe_todays_events_def getTodaysEvents_def cached_api_def CACHE_TTL_def)

text \<open>
  C5, amended. Within one lifetime of the service worker, with each handler run to its
  end before the next event: over any sequence of alarms, tab changes and setting
  changes that all happen on one day \<open>d\<close>, started in any state, each once-per-day rule
  creates its notification at most once, and not at all when it is already latched for
  \<open>d\<close>. The end-of-day summary, whose mark is a stored record, does so also when the
  worker starts again within the day; a start of the worker re-initialises the ledger,
  with no day and every flag false. When the ledger's day differs from the clock's day,
  \<^verbatim>\<open>resetDailyStateIfNeeded\<close> replaces the ledger by the fresh one of the clock's day, with
  every flag false and the cooldown stamp 0, and every rule that reads the ledger gives
  the result it gives on that fresh ledger.
\<close>

theorem C5_once_per_day:
  "((\<forall>x \<in> set evs. today (fst x) = d \<and> snd x \<noteq> Worker_start) \<longrightarrow>
       length (fired (rule_id r) (run w evs)) \<le> Suc (length (fired (rule_id r) w))
       \<and> (latched r d w \<longrightarrow> fired (rule_id r) (run w evs) = fired (rule_id r) w))
   \<and> ((\<forall>x \<in> set evs. today (fst x) = d) \<longrightarrow>
       length (fired (rule_id End_of_day_summary) (run w evs))
         \<le> Suc (length (fired (rule_id End_of_day_summary) w))
       \<and> (latched End_of_day_summary d w \<longrightarrow>
            fired (rule_id End_of_day_summary) (run w evs) = fired (rule_id End_of_day_summary) w))
   \<and> dailyState (step e Worker_start w) =
        \<lparr>date_d = None, morningBriefingSent = False, readyNudgeSent = False,
         firstProductiveCelebrated = False, lastDistractionAlert = 0,
         oneHourCelebrated = False, goalCelebrated = False\<rparr>
   \<and> (date_d (dailyState w) \<noteq> Some (today e) \<longrightarrow>
        resetDailyStateIfNeeded e w = w\<lparr>dailyState := fresh_daily_state (today e)\<rparr>
        \<and> checkMorningBriefing e w
            = checkMorningBriefing e (w\<lparr>dailyState := fresh_daily_state (today e)\<rparr>)
        \<and> checkReadyToStart e w
            = checkReadyToStart e (w\<lparr>dailyState := fresh_daily_state (today e)\<rparr>)
        \<and> checkProgressMilestones e w
            = checkProgressMilestones e (w\<lparr>dailyState := fresh_daily_state (today e)\<rparr>)
        \<and> checkDistractionAlert e w
            = checkDistractionAlert e (w\<lparr>dailyState := fresh_daily_state (today e)\<rparr>)
        \<and> celebrateFirstProductiveAction e dmn w
            = celebrateFirstProductiveAction e dmn (w\<lparr>dailyState := fresh_daily_state (today e)\<rparr>))
   \<and> fresh_daily_state (today e) =
        \<lparr>date_d = Some (today e), morningBriefingSent = False, readyNudgeSent = False,
         firstProductiveCelebrated = False, lastDistractionAlert = 0,
         oneHourCelebrated = False, goalCelebrated = False\<rparr>"
proof -
  have bound: "length (fired (rule_id q) (run w evs)) \<le> Suc (length (fired (rule_id q) w))
       \<and> (latched q d w \<longrightarrow> fired (rule_id q) (run w evs) = fired (rule_id q) w)"
    if "\<forall>x \<in> set evs. today (fst x) = d \<and> (snd x = Worker_start \<longrightarrow> q = End_of_day_summary)"
    for q
  proof -
    from guarded_run [OF that]
    have "(latched q d w \<longrightarrow> fired (rule_id q) (run w evs) = fired (rule_id q) w)
        \<and> (fired (rule_id q) (run w evs) = fired (rule_id q) w
            \<or> (\<exists>n. fired (rule_id q) (run w evs) = fired (rule_id q) w @ [n]))"
      unfolding guarded_def by blast
    then show ?thesis by auto
  qed
  have once: "length (fired (rule_id r) (run w evs)) \<le> Suc (length (fired (rule_id r) w))
       \<and> (latched r d w \<longrightarrow> fired (rule_id r) (run w evs) = fired (rule_id r) w)"
    if "\<forall>x \<in> set evs. today (fst x) = d \<and> snd x \<noteq> Worker_start"
    using that by (intro bound) simp
  have eod: "length (fired (rule_id End_of_day_summary) (run w evs))
         \<le> Suc (length (fired (rule_id End_of_day_summary) w))
       \<and> (latched End_of_day_summary d w \<longrightarrow>
            fired (rule_id End_of_day_summary) (run w evs) = fired (rule_id End_of_day_summary) w)"
    if "\<forall>x \<in> set evs. today (fst x) = d"
    using that by (intro bound) simp
  have start: "dailyState (step e Worker_start w) =
        \<lparr>date_d = None, morningBriefingSent = False, readyNudgeSent = False,
         firstProductiveCelebrated = False, lastDistractionAlert = 0,
         oneHourCelebrated = False, goalCelebrated = False\<rparr>"
    by (simp add: worker_start_def initial_daily_state_def)
  have roll: "resetDailyStateIfNeeded e w = w\<lparr>dailyState := fresh_daily_state (today e)\<rparr>"
    if "date_d (dailyState w) \<noteq> Some (today e)"
    using that by (simp add: resetDailyStateIfNeeded_def)
  have rules: "checkMorningBriefing e w
            = checkMorningBriefing e (w\<lparr>dailyState := fresh_daily_state (today e)\<rparr>)"
      "checkReadyToStart e w
            = checkReadyToStart e (w\<lparr>dailyState := fresh_daily_state (today e)\<rparr>)"
      "checkProgressMilestones e w
            = checkProgressMilestones e (w\<lparr>dailyState := fresh_daily_state (today e)\<rparr>)"
      "checkDistractionAlert e w
            = checkDistractionAlert e (w\<lparr>dailyState := fresh_daily_state (today e)\<rparr>)"
      "celebrateFirstProductiveAction e dmn w
            = celebrateFirstProductiveAction e dmn (w\<lparr>dailyState := fresh_daily_state (today e)\<rparr>)"
    if "date_d (dailyState w) \<noteq> Some (today e)"
    unfolding roll [OF that, symmetric] by (simp_all only: rules_reset_first)
  have fresh: "fresh_daily_state (today e) =
        \<lparr>date_d = Some (today e), morningBriefingSent = False, readyNudgeSent = False,
         firstProductiveCelebrated = False, lastDistractionAlert = 0,
         oneHourCelebrated = False, goalCelebrated = False\<rparr>"
    by (simp add: fresh_daily_state_def)
  from once eod start roll rules fresh show ?thesis
    by blast
qed

lemma morning_twice:
  "map id_n (fired ''morning_briefing'' (run idle_world
       [(tick 1704099600000 9 0 [], Alarm ''morning_briefing''),
        (tick 1704099660000 9 1 [], Alarm ''morning_briefing'')]))
     = [''morning_briefing'']"
  by (simp add: idle_world_def scenario_world_def onAlarm_def checkMorningBriefing_def
      resetDailyStateIfNeeded_def initial_daily_state_def fresh_daily_state_def tick_def
      getSetting_def DEFAULT_CONFIG_def num_or_def is_false_def Let_def notify_def fired_def
      safe_todays_events_def getTodaysEvents_def cached_api_def CACHE_TTL_def)

lemma heartbeat_twice:
  "map id_n (fired ''milestone_1hr'' (run productive_world
       [(tick 1704106930000 11 2 [], Alarm ''heartbeat''),
        (tick 1704106960000 11 2 [], Alarm ''heartbeat'')]))
     = [''milestone_1hr'']"
  by (simp add: productive_world_def idle_world_def scenario_world_def onAlarm_def
      persistActiveSession_def aggregateDailyStats_def sessions_of_day_def scenario_session_def
      fold_session_def session_classification_def add_to_bucket_def agg_init_def productive_record_def
      top_domains_def goal_progress_def
      checkProgressMilestones_def checkDistractionAlert_def checkMeetingAwareness_def cooldown_def
      resetDailyStateIfNeeded_def initial_daily_state_def fresh_daily_state_def tick_def
      getSetting_def DEFAULT_CONFIG_def num_or_def is_false_def Let_def notify_def fired_def
      safe_todays_events_def getTodaysEvents_def cached_api_def CACHE_TTL_def)

text \<open>
  C5, amended, at traces of 1 January 2024. Without a start of the worker, the morning
  alarm at 09:00 and 09:01 gives one briefing, and two heartbeats after the scenario's
  session give one one-hour milestone. With the end-of-day record of the day stored, no
  summary is created, also across a start of the worker. The freshly loaded worker's
  ledger has no day, so the first tick runs on the fresh ledger.
\<close>

theorem C5_witness:
  "map id_n (fired (rule_id Morning_briefing) (run idle_world
       [(tick 1704099600000 9 0 [], Alarm ''morning_briefing''),
        (tick 1704099660000 9 1 [], Alarm ''morning_briefing'')]))
     = [''morning_briefing'']
   \<and> map id_n (fired (rule_id One_hour_milestone) (run productive_world
       [(tick 1704106930000 11 2 [], Alarm ''heartbeat''),
        (tick 1704106960000 11 2 [], Alarm ''heartbeat'')]))
     = [''milestone_1hr'']
   \<and> fired (rule_id End_of_day_summary)
        (run (productive_world\<lparr>settings := [''eod_2024-01-01'' \<mapsto> VBool True]\<rparr>) restart_trace) = []
   \<and> checkMorningBriefing (tick 1704099600000 9 0 []) idle_world
       = checkMorningBriefing (tick 1704099600000 9 0 [])
           (idle_world\<lparr>dailyState := fresh_daily_state ''2024-01-01''\<rparr>)"
  using
    C5_once_per_day [of "[(tick 1704099600000 9 0 [], Alarm ''morning_briefing''),
        (tick 1704099660000 9 1 [], Alarm ''morning_briefing'')]" "''2024-01-01''"
        Morning_briefing idle_world "tick 1704099600000 9 0 []"]
    C5_once_per_day [of "[(tick 1704106930000 11 2 [], Alarm ''heartbeat''),
        (tick 1704106960000 11 2 [], Alarm ''heartbeat'')]" "''2024-01-01''"
        One_hour_milestone productive_world "tick 1704099600000 9 0 []"]
    C5_once_per_day [of restart_trace "''2024-01-01''"
        End_of_day_summary "productive_world\<lparr>settings := [''eod_2024-01-01'' \<mapsto> VBool True]\<rparr>"
        "tick 1704099600000 9 0 []"]
    morning_twice heartbeat_twice
  by (simp add: tick_def idle_world_def productive_world_def scenario_world_def
      initial_daily_state_def restart_trace_def fired_def)

section \<open>Properties of the distraction alert\<close>

lemma keeps_comp:
  "keeps_cooling d L f \<Longrightarrow> keeps_cooling d L g \<Longrightarrow> keeps_cooling d L (\<lambda>w. g (f w))"
  by (simp add: keeps_cooling_def)

lemma keeps_quiet:
  assumes "\<And>w. dailyState (f w) = dailyState w"
    and "\<And>w. fired ''distraction_alert'' (f w) = fired ''distraction_alert'' w"
  shows "keeps_cooling d L f"
  using assms by (simp add: keeps_cooling_def cooling_def alert_times_def)

lemma spaced_snoc:
  "spaced (ts @ [t]) \<longleftrightarrow> spaced ts \<and> (\<forall>a \<in> set ts. a + cooldown \<le> t)"
  by (simp add: spaced_def sorted_wrt_append)

lemma spaced_basic [simp]: "spaced []" "spaced [t]"
  by (simp_all add: spaced_def)

lemma keeps_distraction: "today e = d \<Longrightarrow> keeps_cooling d L (checkDistractionAlert e)"
  unfolding keeps_cooling_def cooling_def alert_times_def
  by (auto simp add: checkDistractionAlert_def resetDailyStateIfNeeded_def Let_def
      fresh_daily_state_def spaced_snoc cooldown_def split: option.splits)

lemma keeps_morning: "today e = d \<Longrightarrow> keeps_cooling d L (checkMorningBriefing e)"
  unfolding keeps_cooling_def cooling_def alert_times_def
  by (auto simp add: checkMorningBriefing_def resetDailyStateIfNeeded_def Let_def fresh_daily_state_def)

lemma keeps_ready: "today e = d \<Longrightarrow> keeps_cooling d L (checkReadyToStart e)"
  unfolding keeps_cooling_def cooling_def alert_times_def
  by (auto simp add: checkReadyToStart_def resetDailyStateIfNeeded_def Let_def fresh_daily_state_def)

lemma keeps_eod: "keeps_cooling d L (checkEndOfDay e)"
  unfolding keeps_cooling_def cooling_def alert_times_def
  by (auto simp add: checkEndOfDay_def Let_def split: option.splits)

lemma keeps_milestones: "today e = d \<Longrightarrow> keeps_cooling d L (checkProgressMilestones e)"
  unfolding keeps_cooling_def cooling_def alert_times_def
  by (auto simp add: checkProgressMilestones_def resetDailyStateIfNeeded_def Let_def
      fresh_daily_state_def split: option.splits)

lemma keeps_celebrate: "today e = d \<Longrightarrow> keeps_cooling d L (celebrateFirstProductiveAction e dmn)"
  unfolding keeps_cooling_def cooling_def alert_times_def
  by (auto simp add: celebrateFirstProductiveAction_def celebrate_resume_def
      resetDailyStateIfNeeded_def Let_def fresh_daily_state_def)

lemma alert_not_meeting: "\<forall>j. ''distraction_alert'' \<noteq> meeting_id j"
  by (simp add: meeting_id_def)

lemma keeps_heartbeat:
  assumes "today e = d"
  shows "keeps_cooling d L (\<lambda>w. checkMeetingAwareness e
             (checkDistractionAlert e
               (checkProgressMilestones e
                 (aggregateDailyStats e
                   (persistActiveSession e w)))))"
proof -
  have 1: "keeps_cooling d L (persistActiveSession e)"
    by (rule keeps_quiet) (simp_all add: fired_def)
  have 2: "keeps_cooling d L (aggregateDailyStats e)"
    by (rule keeps_quiet) (simp_all add: fired_def)
  have 5: "keeps_cooling d L (checkMeetingAwareness e)"
    by (rule keeps_quiet) (simp_all add: meeting_other alert_not_meeting)
  note 3 = keeps_milestones [OF assms, of L] and 4 = keeps_distraction [OF assms, of L]
  have a: "keeps_cooling d L (\<lambda>w. aggregateDailyStats e (persistActiveSession e w))"
    by (rule keeps_comp [OF 1 2])
  have b: "keeps_cooling d L (\<lambda>w. checkProgressMilestones e
              (aggregateDailyStats e (persistActiveSession e w)))"
    by (rule keeps_comp [OF a 3])
  have c: "keeps_cooling d L (\<lambda>w. checkDistractionAlert e (checkProgressMilestones e
              (aggregateDailyStats e (persistActiveSession e w))))"
    by (rule keeps_comp [OF b 4])
  show ?thesis
    by (rule keeps_comp [OF c 5])
qed

lemma keeps_alarm: "today e = d \<Longrightarrow> keeps_cooling d L (onAlarm e name)"
proof -
  assume d: "today e = d"
  have id: "keeps_cooling d L (\<lambda>w. w)"
    by (rule keeps_quiet) simp_all
  have cl: "keeps_cooling d L (runCleanup e)"
    by (rule keeps_quiet) (simp_all add: fired_def)
  have ba: "keeps_cooling d L (batchClassifyDomains e)"
    by (rule keeps_quiet) (simp_all add: fired_def)
  have *: "onAlarm e name =
     (if name = ''heartbeat''
      then (\<lambda>w. checkMeetingAwareness e (checkDistractionAlert e (checkProgressMilestones e
                   (aggregateDailyStats e (persistActiveSession e w)))))
      else if name = ''cleanup'' then runCleanup e
      else if name = ''export'' then (\<lambda>w. w)
      else if name = ''classify'' then batchClassifyDomains e
      else if name = ''morning_briefing'' then checkMorningBriefing e
      else if name = ''ready_check'' then checkReadyToStart e
      else if name = ''end_of_day'' then checkEndOfDay e
      else (\<lambda>w. w))"
    by (rule ext) (simp add: onAlarm_def)
  show ?thesis
    unfolding *
    using keeps_heartbeat [OF d, of L] cl id ba keeps_morning [OF d, of L]
      keeps_ready [OF d, of L] keeps_eod [of d L e]
    by simp
qed

lemma keeps_tab: "today e = d \<Longrightarrow> keeps_cooling d L (handleTabChange e t)"
proof -
  assume d: "today e = d"
  let ?close = "\<lambda>w0. case activeTabState w0 of
                 None \<Rightarrow> w0
               | Some a \<Rightarrow>
                   (let d = now e - startTime a
                    in if d > 1000
                       then w0\<lparr>browsing_sessions := browsing_sessions w0 @ [close_session a (now e) d]\<rparr>
                       else w0)"
  have close: "dailyState (?close w) = dailyState w"
    "notifications (?close w) = notifications w" for w :: world
    by (simp_all add: Let_def split: option.splits)
  show ?thesis
  proof (cases "shouldExclude (url_t t)")
    case True
    then have "handleTabChange e t = (\<lambda>w. (?close w)\<lparr>activeTabState := None\<rparr>)"
      by (intro ext) (simp add: handleTabChange_def Let_def)
    moreover have "keeps_cooling d L (\<lambda>w. (?close w)\<lparr>activeTabState := None\<rparr>)"
      by (rule keeps_quiet) (simp_all add: close fired_def)
    ultimately show ?thesis by simp
  next
    case False
    let ?open = "\<lambda>w. (?close w)\<lparr>activeTabState :=
                         Some \<lparr>url = url_t t, domain = extractDomain (url_hostname e) (url_t t),
                               title = title_t t, startTime = now e,
                               date = today e, classification = ''unclassified'',
                               expiresAt = now e + 30 * 24 * 60 * 60 * 1000\<rparr>\<rparr>"
    from False have "handleTabChange e t =
        (\<lambda>w. celebrateFirstProductiveAction e (extractDomain (url_hostname e) (url_t t)) (?open w))"
      by (intro ext) (simp add: handleTabChange_def Let_def)
    moreover have "keeps_cooling d L ?open"
      by (rule keeps_quiet) (simp_all add: close fired_def)
    ultimately show ?thesis
      using keeps_comp [OF _ keeps_celebrate [OF d, of L]] by simp
  qed
qed

lemma keeps_step: "today e = d \<Longrightarrow> ev \<noteq> Worker_start \<Longrightarrow> keeps_cooling d L (step e ev)"
proof (cases ev)
  case (Alarm name)
  assume "today e = d"
  from keeps_alarm [OF this, of L name] Alarm show ?thesis
    by (simp add: keeps_cooling_def)
next
  case (TabChange t)
  assume "today e = d"
  from keeps_tab [OF this, of L t] TabChange show ?thesis
    by (simp add: keeps_cooling_def)
next
  case (SET_SETTING k v)
  have "keeps_cooling d L (\<lambda>w. w\<lparr>settings := (settings w)(k \<mapsto> v)\<rparr>)"
    by (rule keeps_quiet) simp_all
  with SET_SETTING show ?thesis
    by (simp add: keeps_cooling_def)
next
  case Worker_start
  assume "ev \<noteq> Worker_start"
  with Worker_start show ?thesis by simp
qed

lemma keeps_run:
  "\<forall>x \<in> set evs. today (fst x) = d \<and> snd x \<noteq> Worker_start \<Longrightarrow>
     keeps_cooling d L (\<lambda>w. run w evs)"
proof (induction evs)
  case Nil
  show ?case by (simp add: keeps_cooling_def)
next
  case (Cons x evs)
  obtain e ev where x: "x = (e, ev)" by (cases x)
  with Cons.prems have e: "today e = d" and ev: "ev \<noteq> Worker_start" by auto
  from Cons.prems have "\<forall>x \<in> set evs. today (fst x) = d \<and> snd x \<noteq> Worker_start"
    by simp
  from keeps_comp [OF keeps_step [OF e ev, of L] Cons.IH [OF this]] x
  show ?case by simp
qed

lemma alert_after_rollover:
  assumes "date_d (dailyState v) \<noteq> Some (today e)"
    and "\<not> is_false (getSetting (settings v) ''enableDistractionAlerts'')"
    and "30 * 60 * 1000 \<le> now e"
    and "map_option distractionTime (daily_stats_store v (today e)) = Some ms"
    and "num_or (getSetting (settings v) ''distractionAlertMinutes'') 60 * 60 * 1000 \<le> ms"
  shows "fired ''distraction_alert'' (checkDistractionAlert e v) =
           fired ''distraction_alert'' v
           @ [\<lparr>id_n = ''distraction_alert'', title_n = ''AniMate: Gentle Nudge'', priority = 1,
                created = now e\<rparr>]"
  using assms
  by (auto simp add: checkDistractionAlert_def resetDailyStateIfNeeded_def fresh_daily_state_def
      cooldown_def Let_def notify_def fired_def split: option.splits)

text \<open>
  C6, amended. Within one lifetime of the service worker, with each handler run to its
  end before the next event: over any sequence of alarms, tab changes and setting
  changes that all happen on one day \<open>d\<close>, started in a state with no alert created
  yet, every distraction alert is created at least 30 minutes after every earlier one,
  however long the distraction time stays at or above the threshold; and when the ledger
  at the start is of day \<open>d\<close>, at least 30 minutes after the stamp of the last alert it
  holds. At a day rollover the stamp is cleared with the rest of the ledger: the alert
  rule runs as on the fresh ledger of the new day, and when alerts are enabled, the
  clock reads at least 30 minutes, and the day's distraction time has reached the
  threshold, it creates an alert whatever the stamp of the old day was. A start of the
  worker clears the stamp in the same way.
\<close>

theorem C6_cooldown_within_day:
  "((\<forall>x \<in> set evs. today (fst x) = d \<and> snd x \<noteq> Worker_start)
      \<and> fired ''distraction_alert'' w = [] \<longrightarrow>
     sorted_wrt (\<lambda>a b. a + 30 * 60 * 1000 \<le> b)
       (map created (fired ''distraction_alert'' (run w evs)))
     \<and> (date_d (dailyState w) = Some d \<longrightarrow>
          (\<forall>n \<in> set (fired ''distraction_alert'' (run w evs)).
             lastDistractionAlert (dailyState w) + 30 * 60 * 1000 \<le> created n)))
   \<and> (date_d (dailyState v) \<noteq> Some (today e) \<longrightarrow>
        lastDistractionAlert (dailyState (resetDailyStateIfNeeded e v)) = 0
        \<and> checkDistractionAlert e v
            = checkDistractionAlert e (v\<lparr>dailyState := fresh_daily_state (today e)\<rparr>)
        \<and> (\<not> is_false (getSetting (settings v) ''enableDistractionAlerts'')
             \<and> 30 * 60 * 1000 \<le> now e
             \<and> map_option distractionTime (daily_stats_store v (today e)) = Some ms
             \<and> num_or (getSetting (settings v) ''distractionAlertMinutes'') 60 * 60 * 1000 \<le> ms \<longrightarrow>
            fired ''distraction_alert'' (checkDistractionAlert e v) =
              fired ''distraction_alert'' v
              @ [\<lparr>id_n = ''distraction_alert'', title_n = ''AniMate: Gentle Nudge'', priority = 1,
                   created = now e\<rparr>]))
   \<and> lastDistractionAlert (dailyState (step e Worker_start v)) = 0
   \<and> date_d (dailyState (step e Worker_start v)) = None"
proof -
  have within: "sorted_wrt (\<lambda>a b. a + 30 * 60 * 1000 \<le> b)
       (map created (fired ''distraction_alert'' (run w evs)))
     \<and> (date_d (dailyState w) = Some d \<longrightarrow>
          (\<forall>n \<in> set (fired ''distraction_alert'' (run w evs)).
             lastDistractionAlert (dailyState w) + 30 * 60 * 1000 \<le> created n))"
    if day: "\<forall>x \<in> set evs. today (fst x) = d \<and> snd x \<noteq> Worker_start"
      and none: "fired ''distraction_alert'' w = []"
  proof -
    from none have "cooling d None w"
      by (simp add: cooling_def alert_times_def)
    with keeps_run [OF day, of None] have "cooling d None (run w evs)"
      by (simp add: keeps_cooling_def)
    then have 1: "sorted_wrt (\<lambda>a b. a + 30 * 60 * 1000 \<le> b)
         (map created (fired ''distraction_alert'' (run w evs)))"
      by (simp add: cooling_def spaced_def alert_times_def cooldown_def)
    have 2: "\<forall>n \<in> set (fired ''distraction_alert'' (run w evs)).
               lastDistractionAlert (dailyState w) + 30 * 60 * 1000 \<le> created n"
      if "date_d (dailyState w) = Some d"
    proof -
      from none that have "cooling d (Some (lastDistractionAlert (dailyState w))) w"
        by (simp add: cooling_def alert_times_def)
      with keeps_run [OF day, of "Some (lastDistractionAlert (dailyState w))"]
      have "cooling d (Some (lastDistractionAlert (dailyState w))) (run w evs)"
        by (simp add: keeps_cooling_def)
      then show ?thesis
        by (simp add: cooling_def alert_times_def cooldown_def)
    qed
    from 1 2 show ?thesis by blast
  qed
  have roll: "resetDailyStateIfNeeded e v = v\<lparr>dailyState := fresh_daily_state (today e)\<rparr>"
    if "date_d (dailyState v) \<noteq> Some (today e)"
    using that by (simp add: resetDailyStateIfNeeded_def)
  have cleared: "lastDistractionAlert (dailyState (resetDailyStateIfNeeded e v)) = 0"
    if "date_d (dailyState v) \<noteq> Some (today e)"
    unfolding roll [OF that] by (simp add: fresh_daily_state_def)
  have same: "checkDistractionAlert e v
            = checkDistractionAlert e (v\<lparr>dailyState := fresh_daily_state (today e)\<rparr>)"
    if "date_d (dailyState v) \<noteq> Some (today e)"
    unfolding roll [OF that, symmetric] by (simp only: rules_reset_first)
  have start: "lastDistractionAlert (dailyState (step e Worker_start v)) = 0"
      "date_d (dailyState (step e Worker_start v)) = None"
    by (simp_all add: worker_start_def initial_daily_state_def)
  from within cleared same alert_after_rollover [of v e ms] start show ?thesis
    by blast
qed

lemmas trace_eval =
  distracted_world_def idle_world_def scenario_world_def evening_session_def distraction_record_def
  youtube_tab_def example_tab_def tick_def example_hostname_def
  onAlarm_def handleTabChange_def extractDomain_def
  celebrateFirstProductiveAction_def celebrate_resume_def checkIfProductive_def
  KNOWN_PRODUCTIVE_def close_session_def worker_start_def initializeSettings_def
  persistActiveSession_def aggregateDailyStats_def sessions_of_day_def
  fold_session_def session_classification_def add_to_bucket_def agg_init_def
  top_domains_def goal_progress_def
  checkProgressMilestones_def checkDistractionAlert_def checkMeetingAwareness_def cooldown_def
  resetDailyStateIfNeeded_def initial_daily_state_def fresh_daily_state_def
  getSetting_def DEFAULT_CONFIG_def num_or_def is_false_def Let_def notify_def fired_def
  safe_todays_events_def getTodaysEvents_def cached_api_def CACHE_TTL_def

lemma not_excluded:
  "\<not> shouldExclude ''https://www.youtube.com/watch''" "\<not> shouldExclude ''https://example.org/''"
  by code_simp+

text \<open>
  C6 as stated fails across a day rollover and across a start of the worker, where the
  ledger and with it the stamp of the last alert is cleared. With a threshold of 15
  minutes, an alert at 23:50:00 UTC is followed by one at 00:16:30 UTC, 26.5 minutes
  later, once the new day's distraction time has reached the threshold; and an alert at
  23:20:00 is followed by one at 23:20:30 when the worker has started again in between.
\<close>

theorem C6_counterexample:
  "map created (fired ''distraction_alert'' (run distracted_world rollover_trace))
     = [1704153000000, 1704154590000]
   \<and> (1704154590000 :: int) - 1704153000000 < 30 * 60 * 1000
   \<and> map created (fired ''distraction_alert'' (run distracted_world restart_evening_trace))
     = [1704151200000, 1704151230000]
   \<and> (1704151230000 :: int) - 1704151200000 < 30 * 60 * 1000"
  by (simp add: rollover_trace_def restart_evening_trace_def not_excluded trace_eval)

lemma evening_alerts:
  "map created (fired ''distraction_alert'' (run distracted_world evening_trace))
     = [1704151200000, 1704153000000]"
  by (simp add: evening_trace_def trace_eval)

lemma rolled_stats:
  "map_option distractionTime (daily_stats_store rolled_world (today night_tick)) = Some 950000"
  "settings rolled_world = [''distractionAlertMinutes'' \<mapsto> VNum 15]"
  "dailyState rolled_world = (fresh_daily_state ''2024-01-01'')\<lparr>lastDistractionAlert := 1704153000000\<rparr>"
  "notifications rolled_world = []"
  by (simp_all add: rolled_world_def night_tick_def night_session_def trace_eval)

text \<open>
  C6, amended, at the evening of 1 January: with the threshold exceeded at every
  heartbeat, alerts are created at 23:20:00 and 23:50:00, none at 23:20:30. At the
  heartbeat of 00:16:30 on 2 January, with 950 seconds of distraction on the new day and
  the old day's stamp at 23:50:00, the alert is created.
\<close>

theorem C6_witness:
  "map created (fired ''distraction_alert'' (run distracted_world evening_trace))
     = [1704151200000, 1704153000000]
   \<and> sorted_wrt (\<lambda>a b. a + 30 * 60 * 1000 \<le> b) [1704151200000, 1704153000000 :: int]
   \<and> lastDistractionAlert (dailyState rolled_world) = 1704153000000
   \<and> now night_tick - lastDistractionAlert (dailyState rolled_world) < 30 * 60 * 1000
   \<and> map created (fired ''distraction_alert'' (checkDistractionAlert night_tick rolled_world))
       = [1704154590000]"
proof -
  have hyps: "\<forall>x \<in> set evening_trace. today (fst x) = ''2024-01-01'' \<and> snd x \<noteq> Worker_start"
      "fired ''distraction_alert'' distracted_world = []"
      "date_d (dailyState rolled_world) \<noteq> Some (today night_tick)"
      "\<not> is_false (getSetting (settings rolled_world) ''enableDistractionAlerts'')"
      "30 * 60 * 1000 \<le> now night_tick"
      "num_or (getSetting (settings rolled_world) ''distractionAlertMinutes'') 60 * 60 * 1000 \<le> 950000"
      "fired ''distraction_alert'' rolled_world = []"
    by (simp_all add: rolled_stats evening_trace_def tick_def night_tick_def distracted_world_def
        idle_world_def scenario_world_def fired_def fresh_daily_state_def getSetting_def
        num_or_def is_false_def DEFAULT_CONFIG_def)
  from C6_cooldown_within_day [of evening_trace "''2024-01-01''" distracted_world
      rolled_world night_tick 950000] hyps rolled_stats(1)
  have "sorted_wrt (\<lambda>a b. a + 30 * 60 * 1000 \<le> b)
          (map created (fired ''distraction_alert'' (run distracted_world evening_trace)))"
    and "fired ''distraction_alert'' (checkDistractionAlert night_tick rolled_world) =
           fired ''distraction_alert'' rolled_world @ [\<lparr>id_n = ''distraction_alert'', title_n = ''AniMate: Gentle Nudge'', priority = 1,
              created = now night_tick\<rparr>]"
    by blast+
  with evening_alerts rolled_stats(3) hyps(7) show ?thesis
    by (simp add: night_tick_def tick_def fresh_daily_state_def)
qed

end
